theory Spec2Isabelle
  imports Complex_Main
begin

section \<open>Python integers, slices and tensors\<close>

text \<open>
  The script \<^verbatim>\<open>dist_model_recnet.py\<close> drives three external collaborators: the recurrent
  network \<^verbatim>\<open>nnet\<close>, the loss wrapper \<^verbatim>\<open>loss_fcn\<close> and the optimiser \<^verbatim>\<open>optim\<close>.
  Their internals are not part of the script; they are parameters of the model.  Every
  Python exception the script itself can raise is a value of \<open>error\<close>.

  Python floats are idealised as \<open>real\<close> (no rounding, no NaN); \<^verbatim>\<open>a / b\<close> on integers
  followed by \<^verbatim>\<open>math.ceil\<close>, \<^verbatim>\<open>int\<close> or \<^verbatim>\<open>is_integer\<close> is modelled by the exact
  quotient.
\<close>

datatype error =
  ZeroDivisionError | UnboundLocalError | IndexError | RuntimeError | NameError | FileNotFoundError

definition bind_err :: "'e + 'a \<Rightarrow> ('a \<Rightarrow> 'e + 'b) \<Rightarrow> 'e + 'b" where
  "bind_err r f = (case r of Inl e \<Rightarrow> Inl e | Inr a \<Rightarrow> f a)"

text \<open>\<^verbatim>\<open>math.ceil(a / b)\<close> for \<open>b \<noteq> 0\<close> (the caller raises on \<open>b = 0\<close>).\<close>

definition py_ceil_div :: "int \<Rightarrow> int \<Rightarrow> int" where
  "py_ceil_div a b = - ((- a) div b)"

text \<open>\<^verbatim>\<open>int(a / b)\<close> for \<open>b \<noteq> 0\<close>: the quotient truncated towards zero.\<close>

definition py_trunc_div :: "int \<Rightarrow> int \<Rightarrow> int" where
  "py_trunc_div a b = sgn a * sgn b * (\<bar>a\<bar> div \<bar>b\<bar>)"

text \<open>
  \<^verbatim>\<open>for i in range(n): body\<close> on a state, stopping at the first exception.  After the loop
  the variable \<^verbatim>\<open>i\<close> holds \<open>n - 1\<close> if the body ran, and keeps what it had before (nothing,
  for a variable first bound by the loop) otherwise.
\<close>

primrec for_range :: "nat \<Rightarrow> (nat \<Rightarrow> 'a \<Rightarrow> error + 'a) \<Rightarrow> 'a \<Rightarrow> error + 'a" where
  "for_range 0 body a = Inr a"
| "for_range (Suc n) body a = bind_err (for_range n body a) (body n)"

definition loop_var :: "nat \<Rightarrow> nat option \<Rightarrow> nat option" where
  "loop_var n prev = (if n = 0 then prev else Some (n - 1))"

text \<open>
  A tensor of shape [time, segment, channel] is the list of its time frames; a frame is
  the list of its segments' samples (the channel axis stays inside \<open>'a\<close>).
\<close>

type_synonym 'a tensor = "'a list list"

text \<open>A slice bound \<^verbatim>\<open>i\<close> on an axis of length \<open>n\<close>: negative bounds count from the end,
  and the result is clamped to \<open>0..n\<close>.\<close>

definition slice_index :: "int \<Rightarrow> nat \<Rightarrow> nat" where
  "slice_index i n = (if i < 0 then nat (int n + i) else min (nat i) n)"

text \<open>\<^verbatim>\<open>xs[a:b]\<close>.\<close>

definition py_slice :: "'a list \<Rightarrow> int \<Rightarrow> int \<Rightarrow> 'a list" where
  "py_slice xs a b =
     (let lo = slice_index a (length xs); hi = slice_index b (length xs)
      in take (hi - lo) (drop lo xs))"

text \<open>
  \<^verbatim>\<open>out[a:b] = v\<close> along the time axis.  The value must have as many frames as the
  slice, or exactly one frame (which is then broadcast); otherwise torch raises
  RuntimeError.  The trailing axes of \<open>v\<close> are taken to agree with those of \<open>out\<close>.
\<close>

definition set_slice :: "'a list \<Rightarrow> int \<Rightarrow> int \<Rightarrow> 'a list \<Rightarrow> error + 'a list" where
  "set_slice out a b v =
     (let lo = slice_index a (length out); hi = slice_index b (length out); m = hi - lo
      in if length v = m then Inr (take lo out @ v @ drop (lo + m) out)
         else if length v = 1 then Inr (take lo out @ replicate m (hd v) @ drop (lo + m) out)
         else Inl RuntimeError)"

text \<open>\<^verbatim>\<open>data[:, idx, :]\<close>: the segments listed in \<open>idx\<close>, in that order, at every time
  index.  An index beyond the segment axis raises IndexError.\<close>

definition gather :: "'a tensor \<Rightarrow> nat list \<Rightarrow> 'a tensor" where
  "gather t idx = map (\<lambda>row. map (\<lambda>i. row ! i) idx) t"

definition index_select :: "'a tensor \<Rightarrow> nat list \<Rightarrow> error + 'a tensor" where
  "index_select t idx =
     (if \<forall>row \<in> set t. \<forall>i \<in> set idx. i < length row
      then Inr (gather t idx)
      else Inl IndexError)"

text \<open>\<^verbatim>\<open>torch.empty_like(t)\<close>: a tensor of the shape of \<open>t\<close> holding whatever the
  allocator returned; \<open>fresh i\<close> is that unspecified content of frame \<open>i\<close>.\<close>

definition empty_like :: "(nat \<Rightarrow> 'a list) \<Rightarrow> 'b tensor \<Rightarrow> 'a tensor" where
  "empty_like fresh t = map fresh [0..<length t]"

section \<open>The collaborators and the record of their calls\<close>

text \<open>
  \<open>'s\<close> is everything the network object and the optimiser hold: weights, hidden state,
  gradient buffers, optimiser moments.  \<open>forward\<close> is \<^verbatim>\<open>nnet(x)\<close>; \<open>loss_fcn\<close> gives the
  scalar later read by \<^verbatim>\<open>loss.item()\<close>, and \<open>backward\<close> is \<^verbatim>\<open>loss.backward()\<close> for the
  loss of that output and target.
\<close>

record ('s, 'x, 'y) collab =
  forward :: "'s \<Rightarrow> 'x tensor \<Rightarrow> 'y tensor \<times> 's"
  zero_grad :: "'s \<Rightarrow> 's"
  detach_hidden :: "'s \<Rightarrow> 's"
  reset_hidden :: "'s \<Rightarrow> 's"
  loss_fcn :: "'y tensor \<Rightarrow> 'y tensor \<Rightarrow> real"
  backward :: "'y tensor \<Rightarrow> 'y tensor \<Rightarrow> 's \<Rightarrow> 's"
  optim_step :: "'s \<Rightarrow> 's"

text \<open>Each call to a collaborator is appended to a trace, with the arguments it got.\<close>

datatype ('x, 'y) event =
    Nnet "'x tensor"
  | Zero_grad
  | Detach_hidden
  | Reset_hidden
  | Loss_fcn "'y tensor" "'y tensor"
  | Backward
  | Optim_step

type_synonym ('s, 'x, 'y) world = "'s \<times> ('x, 'y) event list"

definition call_nnet ::
  "('s, 'x, 'y) collab \<Rightarrow> 'x tensor \<Rightarrow> ('s, 'x, 'y) world \<Rightarrow> 'y tensor \<times> ('s, 'x, 'y) world" where
  "call_nnet C x w = (fst (forward C (fst w) x), (snd (forward C (fst w) x), snd w @ [Nnet x]))"

definition call_zero_grad :: "('s, 'x, 'y) collab \<Rightarrow> ('s, 'x, 'y) world \<Rightarrow> ('s, 'x, 'y) world" where
  "call_zero_grad C w = (zero_grad C (fst w), snd w @ [Zero_grad])"

definition call_detach_hidden :: "('s, 'x, 'y) collab \<Rightarrow> ('s, 'x, 'y) world \<Rightarrow> ('s, 'x, 'y) world" where
  "call_detach_hidden C w = (detach_hidden C (fst w), snd w @ [Detach_hidden])"

definition call_reset_hidden :: "('s, 'x, 'y) collab \<Rightarrow> ('s, 'x, 'y) world \<Rightarrow> ('s, 'x, 'y) world" where
  "call_reset_hidden C w = (reset_hidden C (fst w), snd w @ [Reset_hidden])"

definition call_loss_fcn ::
  "('s, 'x, 'y) collab \<Rightarrow> 'y tensor \<Rightarrow> 'y tensor \<Rightarrow> ('s, 'x, 'y) world \<Rightarrow> real \<times> ('s, 'x, 'y) world" where
  "call_loss_fcn C out tgt w = (loss_fcn C out tgt, (fst w, snd w @ [Loss_fcn out tgt]))"

definition call_backward ::
  "('s, 'x, 'y) collab \<Rightarrow> 'y tensor \<Rightarrow> 'y tensor \<Rightarrow> ('s, 'x, 'y) world \<Rightarrow> ('s, 'x, 'y) world" where
  "call_backward C out tgt w = (backward C out tgt (fst w), snd w @ [Backward])"

definition call_optim_step :: "('s, 'x, 'y) collab \<Rightarrow> ('s, 'x, 'y) world \<Rightarrow> ('s, 'x, 'y) world" where
  "call_optim_step C w = (optim_step C (fst w), snd w @ [Optim_step])"

section \<open>only_proc: chunked inference\<close>

text \<open>The body of the loop over full chunks (lines 124-125).\<close>

definition proc_chunk ::
  "('s, 'x, 'y) collab \<Rightarrow> 'x tensor \<Rightarrow> int \<Rightarrow> nat \<Rightarrow>
   'y tensor \<times> ('s, 'x, 'y) world \<Rightarrow> error + 'y tensor \<times> ('s, 'x, 'y) world" where
  "proc_chunk C input_data chunk l ow =
     (let (y, w1) = call_nnet C (py_slice input_data (int l * chunk) ((int l + 1) * chunk)) (snd ow)
      in bind_err (set_slice (fst ow) (int l * chunk) ((int l + 1) * chunk) y)
           (\<lambda>output. Inr (output, call_detach_hidden C w1)))"

text \<open>The remainder branch (line 128); \<open>l\<close> is what the loop left in its variable.\<close>

definition proc_remainder ::
  "('s, 'x, 'y) collab \<Rightarrow> int \<Rightarrow> 'x tensor \<Rightarrow> int \<Rightarrow> nat \<Rightarrow>
   'y tensor \<times> ('s, 'x, 'y) world \<Rightarrow> error + 'y tensor \<times> ('s, 'x, 'y) world" where
  "proc_remainder C args_val_chunk input_data chunk l ow =
     (let (y, w1) = call_nnet C (py_slice input_data ((int l + 1) * chunk) (- 1)) (snd ow)
      in bind_err (set_slice (fst ow) ((int l + 1) * args_val_chunk) (- 1) y)
           (\<lambda>output. Inr (output, w1)))"

text \<open>
  \<^verbatim>\<open>only_proc(input_data, target_data, nnet, loss_fcn, chunk)\<close>, with the global
  \<^verbatim>\<open>args.val_chunk\<close> it reads as a further argument.  It returns the pair
  \<^verbatim>\<open>(output, loss.item())\<close> and the world after the call.
\<close>

definition only_proc ::
  "('s, 'x, 'y) collab \<Rightarrow> (nat \<Rightarrow> 'y list) \<Rightarrow> int \<Rightarrow> 'x tensor \<Rightarrow> 'y tensor \<Rightarrow> int \<Rightarrow>
   ('s, 'x, 'y) world \<Rightarrow> error + ('y tensor \<times> real) \<times> ('s, 'x, 'y) world" where
  "only_proc C fresh args_val_chunk input_data target_data chunk w =
     (if chunk = 0 then Inl ZeroDivisionError
      else
        let output = empty_like fresh target_data;
            size0 = int (length output);
            n = nat (py_trunc_div size0 chunk)
        in bind_err (for_range n (proc_chunk C input_data chunk) (output, w)) (\<lambda>ow.
           bind_err
             (if \<not> chunk dvd size0
              then (case loop_var n None of
                      None \<Rightarrow> Inl UnboundLocalError
                    | Some l \<Rightarrow> proc_remainder C args_val_chunk input_data chunk l ow)
              else Inr ow) (\<lambda>ow.
           let w1 = call_reset_hidden C (snd ow);
               (loss, w2) = call_loss_fcn C (fst ow) target_data w1
           in Inr ((fst ow, loss), w2))))"

section \<open>train_epoch: one epoch of truncated backpropagation through time\<close>

text \<open>
  The body of the inner loop (lines 98-111).  The state is \<^verbatim>\<open>start_i\<close>,
  \<^verbatim>\<open>batch_loss\<close> and the world.  The input slice is \<open>up_fr\<close> long, the parameter; the
  target slice and the advance of \<^verbatim>\<open>start_i\<close> use the global \<^verbatim>\<open>args.up_fr\<close>.
\<close>

definition tbptt_step ::
  "('s, 'x, 'y) collab \<Rightarrow> int \<Rightarrow> 'x tensor \<Rightarrow> 'y tensor \<Rightarrow> int \<Rightarrow> nat \<Rightarrow>
   int \<times> real \<times> ('s, 'x, 'y) world \<Rightarrow> error + int \<times> real \<times> ('s, 'x, 'y) world" where
  "tbptt_step C args_up_fr input_batch target_batch up_fr k st =
     (let start_i = fst st; batch_loss = fst (snd st);
          (output, w1) = call_nnet C (py_slice input_batch start_i (start_i + up_fr)) (snd (snd st));
          tgt = py_slice target_batch start_i (start_i + args_up_fr);
          (loss, w2) = call_loss_fcn C output tgt w1;
          w3 = call_backward C output tgt w2;
          w4 = call_optim_step C w3;
          w5 = call_detach_hidden C w4;
          w6 = call_zero_grad C w5
      in Inr (start_i + args_up_fr, batch_loss + loss, w6))"

text \<open>
  Lines 93-111: the inner loop over one mini-batch.  \<open>k\<close> is what the variable
  \<^verbatim>\<open>k\<close> held before (nothing in the first mini-batch).  The result is
  \<^verbatim>\<open>batch_loss\<close>, the variable \<^verbatim>\<open>k\<close> after the loop, and the world.
\<close>

definition tbptt_loop ::
  "('s, 'x, 'y) collab \<Rightarrow> int \<Rightarrow> 'x tensor \<Rightarrow> 'y tensor \<Rightarrow> int \<Rightarrow> int \<Rightarrow> nat option \<Rightarrow>
   ('s, 'x, 'y) world \<Rightarrow> error + real \<times> nat option \<times> ('s, 'x, 'y) world" where
  "tbptt_loop C args_up_fr input_batch target_batch init_len up_fr k w =
     (if up_fr = 0 then Inl ZeroDivisionError
      else
        let n = nat (py_ceil_div (int (length input_batch) - init_len) up_fr)
        in bind_err
             (for_range n (tbptt_step C args_up_fr input_batch target_batch up_fr) (init_len, 0, w))
             (\<lambda>st. Inr (fst (snd st), loop_var n k, snd (snd st))))"

text \<open>\<^verbatim>\<open>shuffle[batch_i * bs:(batch_i + 1) * bs]\<close>: the segment indices of one mini-batch.\<close>

definition batch_indices :: "nat list \<Rightarrow> int \<Rightarrow> nat \<Rightarrow> nat list" where
  "batch_indices shuffle bs batch_i = py_slice shuffle (int batch_i * bs) ((int batch_i + 1) * bs)"

text \<open>
  The body of the loop over mini-batches (lines 85-115).  The state is
  \<^verbatim>\<open>epoch_loss\<close>, the variable \<^verbatim>\<open>k\<close> and the world.
\<close>

definition train_batch ::
  "('s, 'x, 'y) collab \<Rightarrow> int \<Rightarrow> nat list \<Rightarrow> 'x tensor \<Rightarrow> 'y tensor \<Rightarrow> int \<Rightarrow> int \<Rightarrow> int \<Rightarrow>
   nat \<Rightarrow> real \<times> nat option \<times> ('s, 'x, 'y) world \<Rightarrow>
   error + real \<times> nat option \<times> ('s, 'x, 'y) world" where
  "train_batch C args_up_fr shuffle input_data target_data bs init_len up_fr batch_i st =
     (let epoch_loss = fst st;
          idx = batch_indices shuffle bs batch_i
      in bind_err (index_select input_data idx) (\<lambda>input_batch.
         bind_err (index_select target_data idx) (\<lambda>target_batch.
           let w1 = snd (call_nnet C (py_slice input_batch 0 init_len) (snd (snd st)));
               w2 = call_zero_grad C w1
           in bind_err
                (tbptt_loop C args_up_fr input_batch target_batch init_len up_fr (fst (snd st)) w2)
                (\<lambda>r. case fst (snd r) of
                        None \<Rightarrow> Inl UnboundLocalError
                      | Some k \<Rightarrow>
                          Inr (epoch_loss + fst r / real (k + 1), Some k,
                               call_reset_hidden C (snd (snd r)))))))"

text \<open>
  \<^verbatim>\<open>train_epoch(input_data, target_data, nnet, loss_fcn, optim, bs, init_len, up_fr)\<close>.
  \<open>shuffle\<close> is the value of \<^verbatim>\<open>torch.randperm(input_data.shape[1])\<close>, a random
  permutation of the segment indices, and \<open>args_up_fr\<close> the global \<^verbatim>\<open>args.up_fr\<close>.
  It returns the epoch loss and the world after the call.
\<close>

definition train_epoch ::
  "('s, 'x, 'y) collab \<Rightarrow> int \<Rightarrow> nat list \<Rightarrow> 'x tensor \<Rightarrow> 'y tensor \<Rightarrow> int \<Rightarrow> int \<Rightarrow> int \<Rightarrow>
   ('s, 'x, 'y) world \<Rightarrow> error + real \<times> ('s, 'x, 'y) world" where
  "train_epoch C args_up_fr shuffle input_data target_data bs init_len up_fr w =
     (if bs = 0 then Inl ZeroDivisionError
      else
        let nb = nat (py_ceil_div (int (length shuffle)) bs)
        in bind_err
             (for_range nb
                (train_batch C args_up_fr shuffle input_data target_data bs init_len up_fr)
                (0, None, w))
             (\<lambda>st. case loop_var nb None of
                      None \<Rightarrow> Inl UnboundLocalError
                    | Some batch_i \<Rightarrow> Inr (fst st / real (batch_i + 1), snd (snd st))))"

section \<open>The main program: epochs, validation, checkpoints\<close>

text \<open>
  The script from line 179 on.  What came before (configuration, construction or
  loading of the network, loading of the data) is the initial state.

  \<^verbatim>\<open>network.training_info\<close>, with the fields the script reads and writes.  The best
  validation loss of a network that has not been validated yet is \<open>+\<infinity>\<close>.
\<close>

datatype loss_bound = Infinity | Finite real

fun below :: "real \<Rightarrow> loss_bound \<Rightarrow> bool" where
  "below x Infinity = True"
| "below x (Finite b) = (x < b)"

record training_info =
  current_epoch :: int
  training_losses :: "real list"
  validation_losses :: "real list"
  best_val_loss :: loss_bound
  total_time :: real
  train_epoch_av :: real
  val_epoch_av :: real

text \<open>What the script writes: scalars to the tensorboard writer, text files, models
  saved with their training information, and rendered audio files (the tensor whose
  samples \<^verbatim>\<open>[:, 0, 0]\<close> are written).  Files are named without the save directory.\<close>

datatype 'y effect =
    Add_scalar string real int
  | Write_text string real
  | Save_model string training_info
  | Write_wav string "'y tensor"

text \<open>
  The state of the main program: the network and the trace of its calls, its training
  information, the number of readings of the clock so far, the global variable
  \<^verbatim>\<open>val_output\<close> (unbound until the first validation), the network stored in the file
  \<^verbatim>\<open>model_best\<close> if there is one, and everything written so far.
\<close>

record ('s, 'x, 'y) main_state =
  world :: "('s, 'x, 'y) world"
  info :: training_info
  ticks :: nat
  val_output :: "'y tensor option"
  model_best :: "'s option"
  outputs :: "'y effect list"

text \<open>The command line arguments the main loop reads, and the three subsets.\<close>

record config =
  cfg_epochs :: int
  cfg_validation_f :: int
  cfg_batch_size :: int
  cfg_init_len :: int
  cfg_up_fr :: int
  cfg_val_chunk :: int
  cfg_test_chunk :: int

record ('x, 'y) dataset =
  train_input :: "'x tensor"
  train_target :: "'y tensor"
  val_input :: "'x tensor"
  val_target :: "'y tensor"
  test_input :: "'x tensor"
  test_target :: "'y tensor"

text \<open>\<^verbatim>\<open>time.time()\<close>: the \<open>i\<close>-th reading of the clock is \<open>clock i\<close>.\<close>

definition now :: "(nat \<Rightarrow> real) \<Rightarrow> ('s, 'x, 'y) main_state \<Rightarrow> real \<times> ('s, 'x, 'y) main_state" where
  "now clock st = (clock (ticks st), st\<lparr>ticks := Suc (ticks st)\<rparr>)"

definition emit :: "'y effect list \<Rightarrow> ('s, 'x, 'y) main_state \<Rightarrow> ('s, 'x, 'y) main_state" where
  "emit os st = st\<lparr>outputs := outputs st @ os\<rparr>"

text \<open>Lines 208-218: the validation loss is recorded, and the best model, its loss and
  the validation output are written if the loss is below the best one so far.\<close>

definition record_validation ::
  "int \<Rightarrow> 'y tensor \<Rightarrow> real \<Rightarrow> ('s, 'x, 'y) main_state \<Rightarrow> ('s, 'x, 'y) main_state" where
  "record_validation epoch vout val_loss st =
     (let i1 = (info st)\<lparr>validation_losses := validation_losses (info st) @ [val_loss]\<rparr>;
          st1 = emit [Add_scalar ''Loss/val'' (last (validation_losses i1)) epoch] st;
          i2 = i1\<lparr>current_epoch := epoch\<rparr>
      in if below val_loss (best_val_loss i2)
         then
           let i3 = i2\<lparr>best_val_loss := Finite val_loss\<rparr>
           in emit [Write_text ''bestvloss.txt'' val_loss, Save_model ''model_best'' i3,
                    Write_wav ''best_val_out.wav'' vout]
                (st1\<lparr>info := i3, model_best := Some (fst (world st1))\<rparr>)
         else st1\<lparr>info := i2\<rparr>)"

text \<open>Lines 202-225: one validation.\<close>

definition validate ::
  "config \<Rightarrow> ('x, 'y) dataset \<Rightarrow> ('s, 'x, 'y) collab \<Rightarrow> (nat \<Rightarrow> real) \<Rightarrow> (nat \<Rightarrow> 'y list) \<Rightarrow> int \<Rightarrow>
   ('s, 'x, 'y) main_state \<Rightarrow> error + ('s, 'x, 'y) main_state" where
  "validate A D C clock fresh epoch st =
     (let (val_ep_st_time, st1) = now clock st
      in bind_err
           (only_proc C fresh (cfg_val_chunk A) (val_input D) (val_target D) (cfg_val_chunk A)
              (world st1))
           (\<lambda>r. let st2 = st1\<lparr>world := snd r, val_output := Some (fst (fst r))\<rparr>;
                    st3 = record_validation epoch (fst (fst r)) (snd (fst r)) st2;
                    av = val_epoch_av (info st3);
                    (t, st4) = now clock st3
                in Inr (st4\<lparr>info := (info st4)\<lparr>val_epoch_av :=
                          (if av \<noteq> 0 then (av + t - val_ep_st_time) / 2
                           else t - val_ep_st_time)\<rparr>\<rparr>)))"

text \<open>Lines 184-229: one epoch.  \<open>perms epoch\<close> is the permutation drawn in this epoch.\<close>

definition epoch_body ::
  "config \<Rightarrow> ('x, 'y) dataset \<Rightarrow> ('s, 'x, 'y) collab \<Rightarrow> (nat \<Rightarrow> real) \<Rightarrow> (nat \<Rightarrow> 'y list) \<Rightarrow>
   (int \<Rightarrow> nat list) \<Rightarrow> real \<Rightarrow> real \<Rightarrow> int \<Rightarrow>
   ('s, 'x, 'y) main_state \<Rightarrow> error + ('s, 'x, 'y) main_state" where
  "epoch_body A D C clock fresh perms start_time init_time epoch st =
     (let (ep_st_time, st1) = now clock st
      in bind_err
           (train_epoch C (cfg_up_fr A) (perms epoch) (train_input D) (train_target D)
              (cfg_batch_size A) (cfg_init_len A) (cfg_up_fr A) (world st1))
           (\<lambda>r. let i1 = (info st1)\<lparr>training_losses := training_losses (info st1) @ [fst r]\<rparr>;
                    st2 = emit [Add_scalar ''Loss/train'' (last (training_losses i1)) epoch]
                            (st1\<lparr>world := snd r, info := i1\<rparr>);
                    av = train_epoch_av (info st2);
                    (t, st3) = now clock st2;
                    st4 = st3\<lparr>info := (info st3)\<lparr>train_epoch_av :=
                            (if av \<noteq> 0 then (av + t - ep_st_time) / 2 else t - ep_st_time)\<rparr>\<rparr>
                in bind_err
                     (if cfg_validation_f A = 0 then Inl ZeroDivisionError
                      else if epoch mod cfg_validation_f A = 0
                        then validate A D C clock fresh epoch st4
                        else Inr st4)
                     (\<lambda>st5. let (t', st6) = now clock st5;
                                 i6 = (info st6)\<lparr>current_epoch := epoch,
                                        total_time := (init_time + t' - start_time) / 3600\<rparr>
                             in Inr (emit [Save_model ''model'' i6] (st6\<lparr>info := i6\<rparr>)))))"

text \<open>\<^verbatim>\<open>for x in xs: body\<close>, stopping at the first exception.\<close>

primrec for_each :: "'i list \<Rightarrow> ('i \<Rightarrow> 'a \<Rightarrow> error + 'a) \<Rightarrow> 'a \<Rightarrow> error + 'a" where
  "for_each [] body a = Inr a"
| "for_each (x # xs) body a = bind_err (body x a) (for_each xs body)"

text \<open>Lines 179-229: the time already spent, then the epochs
  \<^verbatim>\<open>range(current_epoch + 1, args.epochs + 1)\<close>.  \<open>start_time\<close> was read at line 135.\<close>

definition train_loop ::
  "config \<Rightarrow> ('x, 'y) dataset \<Rightarrow> ('s, 'x, 'y) collab \<Rightarrow> (nat \<Rightarrow> real) \<Rightarrow> (nat \<Rightarrow> 'y list) \<Rightarrow>
   (int \<Rightarrow> nat list) \<Rightarrow> real \<Rightarrow> ('s, 'x, 'y) main_state \<Rightarrow> error + ('s, 'x, 'y) main_state" where
  "train_loop A D C clock fresh perms start_time st =
     (let (t, st1) = now clock st;
          init_time = t - start_time + total_time (info st1) * 3600
      in for_each [current_epoch (info st1) + 1 .. cfg_epochs A]
           (epoch_body A D C clock fresh perms start_time init_time) st1)"

text \<open>Lines 231-249: the test set is processed by the final network and then by the
  network loaded from \<^verbatim>\<open>model_best\<close>.  \<open>max_mem\<close> is the peak memory reported by torch.\<close>

definition final_test ::
  "config \<Rightarrow> ('x, 'y) dataset \<Rightarrow> ('s, 'x, 'y) collab \<Rightarrow> (nat \<Rightarrow> 'y list) \<Rightarrow> real \<Rightarrow>
   ('s, 'x, 'y) main_state \<Rightarrow> error + ('s, 'x, 'y) main_state" where
  "final_test A D C fresh max_mem st =
     bind_err
       (only_proc C fresh (cfg_val_chunk A) (test_input D) (test_target D) (cfg_test_chunk A)
          (world st))
       (\<lambda>r. let st1 = emit [Write_text ''testloss_final.txt'' (snd (fst r))] (st\<lparr>world := snd r\<rparr>)
             in case val_output st1 of
                  None \<Rightarrow> Inl NameError
                | Some vout \<Rightarrow>
                    let st2 = emit [Write_wav ''test_out_final.wav'' vout] st1
                    in case model_best st2 of
                         None \<Rightarrow> Inl FileNotFoundError
                       | Some best \<Rightarrow>
                           bind_err
                             (only_proc C fresh (cfg_val_chunk A) (test_input D) (test_target D)
                                (cfg_test_chunk A) (best, snd (world st2)))
                             (\<lambda>r'. Inr (emit [Write_text ''testloss_bestv.txt'' (snd (fst r')),
                                               Write_wav ''test_out_bestv.wav'' (fst (fst r')),
                                               Write_text ''maxmemusage.txt'' max_mem]
                                           (st2\<lparr>world := snd r'\<rparr>))))"

definition main ::
  "config \<Rightarrow> ('x, 'y) dataset \<Rightarrow> ('s, 'x, 'y) collab \<Rightarrow> (nat \<Rightarrow> real) \<Rightarrow> (nat \<Rightarrow> 'y list) \<Rightarrow>
   (int \<Rightarrow> nat list) \<Rightarrow> real \<Rightarrow> real \<Rightarrow> ('s, 'x, 'y) main_state \<Rightarrow>
   error + ('s, 'x, 'y) main_state" where
  "main A D C clock fresh perms start_time max_mem st =
     bind_err (train_loop A D C clock fresh perms start_time st) (final_test A D C fresh max_mem)"

text \<open>
  Modelled from the spec: the training information of a network that was just created.
  It is built by \<^verbatim>\<open>networks.init_model\<close> of the CoreAudioML package, which is not part
  of the script; the spec gives epoch 0, empty loss histories, best validation loss
  \<open>+\<infinity>\<close> and zero cumulative time.
\<close>

definition fresh_info :: training_info where
  "fresh_info = \<lparr> current_epoch = 0, training_losses = [], validation_losses = [],
                  best_val_loss = Infinity, total_time = 0, train_epoch_av = 0,
                  val_epoch_av = 0 \<rparr>"

text \<open>The best validation loss is the least of the validation losses recorded.\<close>

definition best_is_min :: "training_info \<Rightarrow> bool" where
  "best_is_min i \<longleftrightarrow>
     (case best_val_loss i of
        Infinity \<Rightarrow> validation_losses i = []
      | Finite b \<Rightarrow> b \<in> set (validation_losses i) \<and> (\<forall>l \<in> set (validation_losses i). b \<le> l))"

text \<open>The training information saved with the model after each epoch, and the epochs
  whose training loss was reported, in order.\<close>

definition latest_saves :: "'y effect list \<Rightarrow> training_info list" where
  "latest_saves os =
     concat (map (\<lambda>e. case e of Save_model name i \<Rightarrow> (if name = ''model'' then [i] else [])
                                | _ \<Rightarrow> []) os)"

definition trained_epochs :: "'y effect list \<Rightarrow> int list" where
  "trained_epochs os =
     concat (map (\<lambda>e. case e of Add_scalar name v ep \<Rightarrow> (if name = ''Loss/train'' then [ep] else [])
                                | _ \<Rightarrow> []) os)"

section \<open>Reading a trace\<close>

text \<open>The inputs of the calls to the network, the targets of the calls to the loss, the
  scalar losses computed, and the number of optimiser steps, in the order of the trace.\<close>

definition nnet_inputs :: "('x, 'y) event list \<Rightarrow> 'x tensor list" where
  "nnet_inputs tr = concat (map (\<lambda>e. case e of Nnet x \<Rightarrow> [x] | _ \<Rightarrow> []) tr)"

definition loss_targets :: "('x, 'y) event list \<Rightarrow> 'y tensor list" where
  "loss_targets tr = concat (map (\<lambda>e. case e of Loss_fcn out tgt \<Rightarrow> [tgt] | _ \<Rightarrow> []) tr)"

definition loss_values :: "('s, 'x, 'y) collab \<Rightarrow> ('x, 'y) event list \<Rightarrow> real list" where
  "loss_values C tr =
     concat (map (\<lambda>e. case e of Loss_fcn out tgt \<Rightarrow> [loss_fcn C out tgt] | _ \<Rightarrow> []) tr)"

definition optim_steps :: "('x, 'y) event list \<Rightarrow> nat" where
  "optim_steps tr = length (filter (\<lambda>e. e = Optim_step) tr)"

definition resets :: "('x, 'y) event list \<Rightarrow> nat" where
  "resets tr = length (filter (\<lambda>e. e = Reset_hidden) tr)"

text \<open>Every index of \<open>idx\<close> lies on the segment axis of \<open>t\<close>, as the indices of
  \<^verbatim>\<open>torch.randperm(t.shape[1])\<close> do.\<close>

definition in_range :: "'a tensor \<Rightarrow> nat list \<Rightarrow> bool" where
  "in_range t idx \<longleftrightarrow> (\<forall>row \<in> set t. \<forall>i \<in> set idx. i < length row)"

text \<open>The slices of the mini-batch with segment indices \<open>idx\<close> on which a mini-batch of
  \<open>n\<close> inner steps calls the network: the priming slice, then one slice per step.\<close>

definition batch_calls :: "'x tensor \<Rightarrow> nat list \<Rightarrow> int \<Rightarrow> int \<Rightarrow> int \<Rightarrow> nat \<Rightarrow> 'x tensor list" where
  "batch_calls input_data idx init_len args_up_fr up_fr n =
     py_slice (gather input_data idx) 0 init_len
     # map (\<lambda>j. py_slice (gather input_data idx) (init_len + int j * args_up_fr)
                   (init_len + int j * args_up_fr + up_fr)) [0..<n]"

text \<open>A network whose output has as many time frames as its input.\<close>

definition length_preserving :: "('s, 'x, 'y) collab \<Rightarrow> bool" where
  "length_preserving C \<longleftrightarrow> (\<forall>s x. length (fst (forward C s x)) = length x)"

section \<open>A concrete collaborator\<close>

text \<open>
  For evaluating the model on concrete inputs: a network that returns its input and
  counts in its state the frames seen since the last reset, and a loss that sums the
  absolute differences of output and target.
\<close>

definition abs_diff :: "int tensor \<Rightarrow> int tensor \<Rightarrow> real" where
  "abs_diff out tgt =
     real_of_int (sum_list (map (\<lambda>(r, r'). sum_list (map (\<lambda>(a, b). \<bar>a - b\<bar>) (zip r r')))
                     (zip out tgt)))"

definition echo :: "(nat, int, int) collab" where
  "echo = \<lparr> forward = (\<lambda>s x. (x, s + length x)), zero_grad = (\<lambda>s. s),
            detach_hidden = (\<lambda>s. s), reset_hidden = (\<lambda>s. 0),
            loss_fcn = abs_diff,
            backward = (\<lambda>out tgt s. s), optim_step = (\<lambda>s. s) \<rparr>"

text \<open>
  A training subset of ten segments and three time frames, its targets, and a
  permutation of the ten segment indices.
\<close>

definition demo_input :: "int tensor" where
  "demo_input = [[0, 1, 2, 3, 4, 5, 6, 7, 8, 9],
                 [10, 11, 12, 13, 14, 15, 16, 17, 18, 19],
                 [20, 21, 22, 23, 24, 25, 26, 27, 28, 29]]"

definition demo_target :: "int tensor" where
  "demo_target = [[0, 0, 0, 0, 0, 0, 0, 0, 0, 0],
                  [10, 10, 10, 10, 10, 10, 10, 10, 10, 10],
                  [21, 21, 21, 21, 21, 21, 21, 21, 21, 21]]"

definition demo_shuffle :: "nat list" where
  "demo_shuffle = [3, 1, 4, 0, 5, 9, 2, 6, 8, 7]"

text \<open>The calls one epoch makes on this subset with batch size 4, priming length 1 and
  update interval 1.\<close>

definition demo_trace :: "(int, int) event list" where
  "demo_trace =
     [Nnet [[3, 1, 4, 0]], Zero_grad,
      Nnet [[13, 11, 14, 10]], Loss_fcn [[13, 11, 14, 10]] [[10, 10, 10, 10]],
      Backward, Optim_step, Detach_hidden, Zero_grad,
      Nnet [[23, 21, 24, 20]], Loss_fcn [[23, 21, 24, 20]] [[21, 21, 21, 21]],
      Backward, Optim_step, Detach_hidden, Zero_grad, Reset_hidden,
      Nnet [[5, 9, 2, 6]], Zero_grad,
      Nnet [[15, 19, 12, 16]], Loss_fcn [[15, 19, 12, 16]] [[10, 10, 10, 10]],
      Backward, Optim_step, Detach_hidden, Zero_grad,
      Nnet [[25, 29, 22, 26]], Loss_fcn [[25, 29, 22, 26]] [[21, 21, 21, 21]],
      Backward, Optim_step, Detach_hidden, Zero_grad, Reset_hidden,
      Nnet [[8, 7]], Zero_grad,
      Nnet [[18, 17]], Loss_fcn [[18, 17]] [[10, 10]],
      Backward, Optim_step, Detach_hidden, Zero_grad,
      Nnet [[28, 27]], Loss_fcn [[28, 27]] [[21, 21]],
      Backward, Optim_step, Detach_hidden, Zero_grad, Reset_hidden]"

text \<open>
  A run resumed from the checkpoint of epoch 1, taken after two hours, that trains up to
  epoch 3 on a single segment of two frames and validates every second epoch.
\<close>

definition demo_config :: config where
  "demo_config = \<lparr> cfg_epochs = 3, cfg_validation_f = 2, cfg_batch_size = 1, cfg_init_len = 1,
                    cfg_up_fr = 1, cfg_val_chunk = 2, cfg_test_chunk = 2 \<rparr>"

definition demo_dataset :: "(int, int) dataset" where
  "demo_dataset = \<lparr> train_input = [[1], [2]], train_target = [[1], [4]],
                     val_input = [[1], [2]], val_target = [[1], [3]],
                     test_input = [[5], [6]], test_target = [[5], [8]] \<rparr>"

definition demo_state :: "(nat, int, int) main_state" where
  "demo_state = \<lparr> world = (0, []),
                   info = fresh_info\<lparr>current_epoch := 1, training_losses := [50], total_time := 2\<rparr>,
                   ticks = 0, val_output = None, model_best = None, outputs = [] \<rparr>"

text \<open>The state in which the training loop of that run ends.\<close>

definition demo_end :: "(nat, int, int) main_state" where
  "demo_end =
     \<lparr> world =
         (0, [Nnet [[1]], Zero_grad, Nnet [[2]], Loss_fcn [[2]] [[4]],
              Backward, Optim_step, Detach_hidden, Zero_grad, Reset_hidden,
              Nnet [[1], [2]], Detach_hidden, Reset_hidden, Loss_fcn [[1], [2]] [[1], [3]],
              Nnet [[1]], Zero_grad, Nnet [[2]], Loss_fcn [[2]] [[4]],
              Backward, Optim_step, Detach_hidden, Zero_grad, Reset_hidden]),
       info =
         \<lparr> current_epoch = 3, training_losses = [50, 2, 2], validation_losses = [1],
           best_val_loss = Finite 1, total_time = 901 / 450, train_epoch_av = 1,
           val_epoch_av = 1 \<rparr>,
       ticks = 9, val_output = Some [[1], [2]], model_best = Some 0,
       outputs =
         [Add_scalar ''Loss/train'' 2 2, Add_scalar ''Loss/val'' 1 2,
          Write_text ''bestvloss.txt'' 1,
          Save_model ''model_best''
            \<lparr> current_epoch = 2, training_losses = [50, 2], validation_losses = [1],
              best_val_loss = Finite 1, total_time = 2, train_epoch_av = 1,
              val_epoch_av = 0 \<rparr>,
          Write_wav ''best_val_out.wav'' [[1], [2]],
          Save_model ''model''
            \<lparr> current_epoch = 2, training_losses = [50, 2], validation_losses = [1],
              best_val_loss = Finite 1, total_time = 1441 / 720, train_epoch_av = 1,
              val_epoch_av = 1 \<rparr>,
          Add_scalar ''Loss/train'' 2 3,
          Save_model ''model''
            \<lparr> current_epoch = 3, training_losses = [50, 2, 2], validation_losses = [1],
              best_val_loss = Finite 1, total_time = 901 / 450, train_epoch_av = 1,
              val_epoch_av = 1 \<rparr>] \<rparr>"

text \<open>The same state after validations with losses 5 and 3.\<close>

definition demo_validated :: "(nat, int, int) main_state" where
  "demo_validated =
     demo_state\<lparr>info := (info demo_state)\<lparr>validation_losses := [5, 3],
                                             best_val_loss := Finite 3\<rparr>\<rparr>"

text \<open>The audio files written, with the tensors they were rendered from.\<close>

definition wav_files :: "'y effect list \<Rightarrow> (string \<times> 'y tensor) list" where
  "wav_files os = concat (map (\<lambda>e. case e of Write_wav name t \<Rightarrow> [(name, t)] | _ \<Rightarrow> []) os)"


section \<open>Slices and slice assignment\<close>

lemma slice_index_le: "slice_index i n \<le> n"
  by (auto simp: slice_index_def)

lemma set_slice_length:
  assumes "set_slice out a b v = Inr out'"
  shows "length out' = length out"
proof -
  define lo where "lo = slice_index a (length out)"
  define hi where "hi = slice_index b (length out)"
  have hi: "hi \<le> length out" by (simp add: hi_def slice_index_le)
  have lo: "lo \<le> length out" by (simp add: lo_def slice_index_le)
  from assms show ?thesis
    using hi lo unfolding set_slice_def Let_def lo_def[symmetric] hi_def[symmetric]
    by (auto split: if_splits)
qed

lemma set_slice_above:
  assumes "set_slice out a b v = Inr out'"
    and "slice_index b (length out) \<le> k" and "k < length out"
  shows "out' ! k = out ! k"
proof -
  define lo where "lo = slice_index a (length out)"
  define hi where "hi = slice_index b (length out)"
  have lo: "lo \<le> length out" by (simp add: lo_def slice_index_le)
  have hk: "hi \<le> k" using assms(2) by (simp add: hi_def)
  from assms(1) show ?thesis
    using lo hk assms(3) unfolding set_slice_def Let_def lo_def[symmetric] hi_def[symmetric]
    by (auto split: if_splits simp: nth_append)
qed

lemma proc_chunk_above:
  assumes "proc_chunk C input_data chunk l (out, w) = Inr (out', w')"
    and "0 < chunk" and "(int l + 1) * chunk \<le> int k" and "k < length out"
  shows "length out' = length out \<and> out' ! k = out ! k"
proof -
  from assms(1) obtain y where
    s: "set_slice out (int l * chunk) ((int l + 1) * chunk) y = Inr out'"
    by (auto simp: proc_chunk_def bind_err_def Let_def split: prod.splits sum.splits)
  have "0 \<le> (int l + 1) * chunk" using assms(2) by simp
  then have "slice_index ((int l + 1) * chunk) (length out) \<le> k"
    using assms(3,4) by (simp add: slice_index_def)
  with s assms(4) show ?thesis
    by (simp add: set_slice_length set_slice_above)
qed

lemma for_range_proc_chunk_above:
  assumes "for_range n (proc_chunk C input_data chunk) (out, w) = Inr (out', w')"
    and "0 < chunk" and "int n * chunk \<le> int k" and "k < length out"
  shows "length out' = length out \<and> out' ! k = out ! k"
  using assms
proof (induction n arbitrary: out' w')
  case 0
  then show ?case by simp
next
  case (Suc n)
  from Suc.prems(1) obtain out1 w1 where
    a: "for_range n (proc_chunk C input_data chunk) (out, w) = Inr (out1, w1)"
    and b: "proc_chunk C input_data chunk n (out1, w1) = Inr (out', w')"
    by (auto simp: bind_err_def split: sum.splits)
  have le: "int n * chunk \<le> int k"
  proof -
    have "int n * chunk \<le> int (Suc n) * chunk" using Suc.prems(2) by (simp add: algebra_simps)
    with Suc.prems(3) show ?thesis by linarith
  qed
  from Suc.IH[OF a Suc.prems(2) le Suc.prems(4)]
  have ih: "length out1 = length out" "out1 ! k = out ! k" by simp_all
  have "(int n + 1) * chunk \<le> int k" using Suc.prems(3) by (simp add: algebra_simps)
  from proc_chunk_above[OF b Suc.prems(2) this] ih Suc.prems(4)
  show ?case by simp
qed

lemma proc_remainder_last:
  assumes "proc_remainder C vc input_data chunk l (out, w) = Inr (out', w')"
  shows "length out' = length out \<and> out' ! (length out - 1) = out ! (length out - 1)"
proof -
  from assms obtain y where
    s: "set_slice out ((int l + 1) * vc) (- 1) y = Inr out'"
    by (auto simp: proc_remainder_def bind_err_def Let_def split: prod.splits sum.splits)
  show ?thesis
  proof (cases "length out = 0")
    case True
    with set_slice_length[OF s] show ?thesis by simp
  next
    case False
    then have "slice_index (- 1) (length out) \<le> length out - 1"
      by (simp add: slice_index_def)
    with s False show ?thesis
      by (simp add: set_slice_length set_slice_above)
  qed
qed


lemma py_trunc_div_pos: "0 \<le> a \<Longrightarrow> 0 < b \<Longrightarrow> py_trunc_div a b = a div b"
  by (cases "a = 0") (simp_all add: py_trunc_div_def)

lemma py_slice_length:
  assumes "0 \<le> a" and "a \<le> b" and "b \<le> int (length xs)"
  shows "length (py_slice xs a b) = nat (b - a)"
  using assms by (simp add: py_slice_def slice_index_def Let_def)

lemma set_slice_ok:
  assumes "0 \<le> a" and "a \<le> b" and "b \<le> int (length out)" and "length v = nat (b - a)"
  shows "set_slice out a b v = Inr (take (nat a) out @ v @ drop (nat b) out)"
proof -
  have "slice_index a (length out) = nat a" "slice_index b (length out) = nat b"
    using assms by (simp_all add: slice_index_def)
  moreover have "nat b - nat a = nat (b - a)" "nat a + nat (b - a) = nat b"
    using assms by simp_all
  ultimately show ?thesis
    using assms(4) by (simp add: set_slice_def Let_def)
qed

lemma proc_chunk_ok:
  assumes "length_preserving C" and "0 < chunk"
    and "(int l + 1) * chunk \<le> int (length input_data)"
    and "(int l + 1) * chunk \<le> int (length out)"
  shows "\<exists>out' w'. proc_chunk C input_data chunk l (out, w) = Inr (out', w')
           \<and> length out' = length out"
proof -
  let ?a = "int l * chunk" and ?b = "(int l + 1) * chunk"
  have a0: "0 \<le> ?a" using assms(2) by simp
  have ab: "?a \<le> ?b" using assms(2) by (simp add: algebra_simps)
  define x where "x = py_slice input_data ?a ?b"
  have lx: "length x = nat (?b - ?a)"
    unfolding x_def by (rule py_slice_length[OF a0 ab assms(3)])
  define y where "y = fst (forward C (fst w) x)"
  have ly: "length y = nat (?b - ?a)"
    using assms(1) lx by (simp add: y_def length_preserving_def)
  from set_slice_ok[OF a0 ab assms(4) ly] obtain out' where
    s: "set_slice out ?a ?b y = Inr out'" by blast
  have "proc_chunk C input_data chunk l (out, w)
          = Inr (out', call_detach_hidden C (snd (call_nnet C x w)))"
    using s by (simp add: proc_chunk_def Let_def bind_err_def call_nnet_def x_def y_def)
  with set_slice_length[OF s] show ?thesis by blast
qed

lemma for_range_proc_chunk_ok:
  assumes "length_preserving C" and "0 < chunk"
    and "int n * chunk \<le> int (length input_data)"
    and "int n * chunk \<le> int (length out)"
  shows "\<exists>out' w'. for_range n (proc_chunk C input_data chunk) (out, w) = Inr (out', w')
           \<and> length out' = length out"
  using assms(3,4)
proof (induction n)
  case 0
  then show ?case by simp
next
  case (Suc n)
  have step: "int n * chunk \<le> int (Suc n) * chunk"
    using assms(2) by (simp add: algebra_simps)
  from Suc.prems step have "int n * chunk \<le> int (length input_data)"
    "int n * chunk \<le> int (length out)" by linarith+
  from Suc.IH[OF this] obtain out1 w1 where
    a: "for_range n (proc_chunk C input_data chunk) (out, w) = Inr (out1, w1)"
    and l1: "length out1 = length out" by blast
  have "(int n + 1) * chunk \<le> int (length input_data)"
    "(int n + 1) * chunk \<le> int (length out1)"
    using Suc.prems l1 by (simp_all add: algebra_simps)
  from proc_chunk_ok[OF assms(1,2) this, of w1] obtain out' w' where
    "proc_chunk C input_data chunk n (out1, w1) = Inr (out', w')" "length out' = length out1"
    by blast
  with a l1 show ?case by (simp add: bind_err_def)
qed

lemma only_proc_unfold:
  assumes "0 < chunk" and "\<not> chunk dvd int (length target_data)"
    and "chunk < int (length target_data)"
  shows "only_proc C fresh vc input_data target_data chunk w =
           bind_err (for_range (length target_data div nat chunk) (proc_chunk C input_data chunk)
                       (empty_like fresh target_data, w)) (\<lambda>ow.
           bind_err (proc_remainder C vc input_data chunk (length target_data div nat chunk - 1) ow)
             (\<lambda>ow. Inr ((fst ow, loss_fcn C (fst ow) target_data),
                     (reset_hidden C (fst (snd ow)),
                      snd (snd ow) @ [Reset_hidden, Loss_fcn (fst ow) target_data]))))"
proof -
  let ?L = "length target_data"
  have n: "nat (py_trunc_div (int ?L) chunk) = ?L div nat chunk"
    using assms(1) by (simp add: py_trunc_div_pos nat_div_distrib)
  have "nat chunk \<le> ?L" using assms(1,3) by linarith
  moreover have "0 < nat chunk" using assms(1) by simp
  ultimately have q: "0 < ?L div nat chunk" by (simp add: div_greater_zero_iff)
  show ?thesis
    using assms(1,2) n q
    by (simp add: only_proc_def Let_def empty_like_def loop_var_def call_reset_hidden_def
        call_loss_fcn_def split: prod.splits)
qed


section \<open>Traces and the inner loop\<close>

lemma nnet_inputs_simps:
  "nnet_inputs [] = []"
  "nnet_inputs (a @ b) = nnet_inputs a @ nnet_inputs b"
  "nnet_inputs (Nnet x # tr) = x # nnet_inputs tr"
  "nnet_inputs (Zero_grad # tr) = nnet_inputs tr"
  "nnet_inputs (Detach_hidden # tr) = nnet_inputs tr"
  "nnet_inputs (Reset_hidden # tr) = nnet_inputs tr"
  "nnet_inputs (Loss_fcn out tgt # tr) = nnet_inputs tr"
  "nnet_inputs (Backward # tr) = nnet_inputs tr"
  "nnet_inputs (Optim_step # tr) = nnet_inputs tr"
  by (simp_all add: nnet_inputs_def)

lemma loss_targets_simps:
  "loss_targets [] = []"
  "loss_targets (a @ b) = loss_targets a @ loss_targets b"
  "loss_targets (Nnet x # tr) = loss_targets tr"
  "loss_targets (Zero_grad # tr) = loss_targets tr"
  "loss_targets (Detach_hidden # tr) = loss_targets tr"
  "loss_targets (Reset_hidden # tr) = loss_targets tr"
  "loss_targets (Loss_fcn out tgt # tr) = tgt # loss_targets tr"
  "loss_targets (Backward # tr) = loss_targets tr"
  "loss_targets (Optim_step # tr) = loss_targets tr"
  by (simp_all add: loss_targets_def)

lemma loss_values_simps:
  "loss_values C [] = []"
  "loss_values C (a @ b) = loss_values C a @ loss_values C b"
  "loss_values C (Nnet x # tr) = loss_values C tr"
  "loss_values C (Zero_grad # tr) = loss_values C tr"
  "loss_values C (Detach_hidden # tr) = loss_values C tr"
  "loss_values C (Reset_hidden # tr) = loss_values C tr"
  "loss_values C (Loss_fcn out tgt # tr) = loss_fcn C out tgt # loss_values C tr"
  "loss_values C (Backward # tr) = loss_values C tr"
  "loss_values C (Optim_step # tr) = loss_values C tr"
  by (simp_all add: loss_values_def)

lemma optim_steps_simps:
  "optim_steps [] = 0"
  "optim_steps (a @ b) = optim_steps a + optim_steps b"
  "optim_steps (Nnet x # tr) = optim_steps tr"
  "optim_steps (Zero_grad # tr) = optim_steps tr"
  "optim_steps (Detach_hidden # tr) = optim_steps tr"
  "optim_steps (Reset_hidden # tr) = optim_steps tr"
  "optim_steps (Loss_fcn out tgt # tr) = optim_steps tr"
  "optim_steps (Backward # tr) = optim_steps tr"
  "optim_steps (Optim_step # tr) = Suc (optim_steps tr)"
  by (simp_all add: optim_steps_def)

lemma resets_simps:
  "resets [] = 0"
  "resets (a @ b) = resets a + resets b"
  "resets (Nnet x # tr) = resets tr"
  "resets (Zero_grad # tr) = resets tr"
  "resets (Detach_hidden # tr) = resets tr"
  "resets (Reset_hidden # tr) = Suc (resets tr)"
  "resets (Loss_fcn out tgt # tr) = resets tr"
  "resets (Backward # tr) = resets tr"
  "resets (Optim_step # tr) = resets tr"
  by (simp_all add: resets_def)

lemmas trace_simps = nnet_inputs_simps loss_targets_simps loss_values_simps optim_steps_simps
  resets_simps

text \<open>One step of the inner loop, written out.\<close>

lemma tbptt_step_eq:
  "tbptt_step C aup ib tb up_fr k (start_i, bl, (s, tr)) =
     (let x = py_slice ib start_i (start_i + up_fr);
          out = fst (forward C s x);
          tgt = py_slice tb start_i (start_i + aup)
      in Inr (start_i + aup, bl + loss_fcn C out tgt,
              (zero_grad C (detach_hidden C (optim_step C (backward C out tgt (snd (forward C s x))))),
               tr @ [Nnet x, Loss_fcn out tgt, Backward, Optim_step, Detach_hidden, Zero_grad])))"
  by (simp add: tbptt_step_def Let_def call_nnet_def call_loss_fcn_def call_backward_def
      call_optim_step_def call_detach_hidden_def call_zero_grad_def)

lemma tbptt_steps:
  "\<exists>s' new.
     for_range n (tbptt_step C aup ib tb up_fr) (s0, b0, (s, tr))
       = Inr (s0 + int n * aup, b0 + sum_list (loss_values C new), (s', tr @ new)) \<and>
     nnet_inputs new = map (\<lambda>j. py_slice ib (s0 + int j * aup) (s0 + int j * aup + up_fr)) [0..<n] \<and>
     loss_targets new = map (\<lambda>j. py_slice tb (s0 + int j * aup) (s0 + int j * aup + aup)) [0..<n] \<and>
     length (loss_values C new) = n \<and> optim_steps new = n \<and> resets new = 0"
proof (induction n)
  case 0
  show ?case by (simp add: trace_simps)
next
  case (Suc n)
  then obtain s1 new1 where
    run: "for_range n (tbptt_step C aup ib tb up_fr) (s0, b0, (s, tr))
       = Inr (s0 + int n * aup, b0 + sum_list (loss_values C new1), (s1, tr @ new1))"
    and ni: "nnet_inputs new1 = map (\<lambda>j. py_slice ib (s0 + int j * aup) (s0 + int j * aup + up_fr)) [0..<n]"
    and lt: "loss_targets new1 = map (\<lambda>j. py_slice tb (s0 + int j * aup) (s0 + int j * aup + aup)) [0..<n]"
    and lv: "length (loss_values C new1) = n" and os: "optim_steps new1 = n"
    and rs: "resets new1 = 0"
    by blast
  let ?st = "s0 + int n * aup"
  let ?x = "py_slice ib ?st (?st + up_fr)"
  let ?out = "fst (forward C s1 ?x)"
  let ?tgt = "py_slice tb ?st (?st + aup)"
  let ?new = "new1 @ [Nnet ?x, Loss_fcn ?out ?tgt, Backward, Optim_step, Detach_hidden, Zero_grad]"
  let ?s' = "zero_grad C (detach_hidden C (optim_step C (backward C ?out ?tgt (snd (forward C s1 ?x)))))"
  have "for_range (Suc n) (tbptt_step C aup ib tb up_fr) (s0, b0, (s, tr))
       = Inr (s0 + int (Suc n) * aup, b0 + sum_list (loss_values C ?new), (?s', tr @ ?new))"
    by (simp add: run bind_err_def tbptt_step_eq Let_def trace_simps algebra_simps)
  moreover have "nnet_inputs ?new
      = map (\<lambda>j. py_slice ib (s0 + int j * aup) (s0 + int j * aup + up_fr)) [0..<Suc n]"
    by (simp add: trace_simps ni)
  moreover have "loss_targets ?new
      = map (\<lambda>j. py_slice tb (s0 + int j * aup) (s0 + int j * aup + aup)) [0..<Suc n]"
    by (simp add: trace_simps lt)
  moreover have "length (loss_values C ?new) = Suc n" "optim_steps ?new = Suc n" "resets ?new = 0"
    by (simp_all add: trace_simps lv os rs)
  ultimately show ?case by blast
qed

lemma py_ceil_div_ceiling:
  "b \<noteq> 0 \<Longrightarrow> py_ceil_div a b = \<lceil>real_of_int a / real_of_int b\<rceil>"
proof -
  have "\<lceil>real_of_int a / real_of_int b\<rceil> = - \<lfloor>real_of_int (- a) / real_of_int b\<rfloor>"
    by (simp add: ceiling_def)
  also have "\<dots> = - ((- a) div b)"
    by (simp only: floor_divide_of_int_eq)
  finally show ?thesis by (simp add: py_ceil_div_def)
qed

lemma py_ceil_div_pos:
  assumes "0 < a" and "0 < b"
  shows "0 < py_ceil_div a b" and "a < b \<Longrightarrow> py_ceil_div a b = 1"
proof -
  have "0 < real_of_int a / real_of_int b" using assms by simp
  then have "0 < \<lceil>real_of_int a / real_of_int b\<rceil>" by simp
  then show "0 < py_ceil_div a b" using assms by (simp add: py_ceil_div_ceiling)
  show "py_ceil_div a b = 1" if "a < b"
  proof -
    have "real_of_int a / real_of_int b \<le> 1" "0 < real_of_int a / real_of_int b"
      using assms that by simp_all
    then have "\<lceil>real_of_int a / real_of_int b\<rceil> = 1" by (simp add: ceiling_eq_iff)
    then show ?thesis using assms by (simp add: py_ceil_div_ceiling)
  qed
qed

lemma tbptt_loop_eq:
  assumes "up_fr \<noteq> 0"
  shows "\<exists>s' new.
     tbptt_loop C aup ib tb init_len up_fr k (s, tr)
       = Inr (sum_list (loss_values C new),
              loop_var (nat (py_ceil_div (int (length ib) - init_len) up_fr)) k, (s', tr @ new)) \<and>
     nnet_inputs new = map (\<lambda>j. py_slice ib (init_len + int j * aup) (init_len + int j * aup + up_fr))
                         [0..<nat (py_ceil_div (int (length ib) - init_len) up_fr)] \<and>
     loss_targets new = map (\<lambda>j. py_slice tb (init_len + int j * aup) (init_len + int j * aup + aup))
                         [0..<nat (py_ceil_div (int (length ib) - init_len) up_fr)] \<and>
     length (loss_values C new) = nat (py_ceil_div (int (length ib) - init_len) up_fr) \<and>
     optim_steps new = nat (py_ceil_div (int (length ib) - init_len) up_fr) \<and> resets new = 0"
proof -
  let ?n = "nat (py_ceil_div (int (length ib) - init_len) up_fr)"
  from tbptt_steps[of ?n C aup ib tb up_fr init_len 0 s tr] obtain s' new where
    run: "for_range ?n (tbptt_step C aup ib tb up_fr) (init_len, 0, (s, tr))
       = Inr (init_len + int ?n * aup, 0 + sum_list (loss_values C new), (s', tr @ new))"
    and rest: "nnet_inputs new = map (\<lambda>j. py_slice ib (init_len + int j * aup) (init_len + int j * aup + up_fr)) [0..<?n]"
      "loss_targets new = map (\<lambda>j. py_slice tb (init_len + int j * aup) (init_len + int j * aup + aup)) [0..<?n]"
      "length (loss_values C new) = ?n" "optim_steps new = ?n" "resets new = 0"
    by blast
  have "tbptt_loop C aup ib tb init_len up_fr k (s, tr)
       = Inr (sum_list (loss_values C new), loop_var ?n k, (s', tr @ new))"
    using assms by (simp add: tbptt_loop_def Let_def run bind_err_def)
  with rest show ?thesis by blast
qed

lemma py_slice_clamp_stop:
  assumes "int (length xs) \<le> b"
  shows "py_slice xs a b = py_slice xs a (int (length xs))"
  using assms by (simp add: py_slice_def slice_index_def Let_def)

section \<open>The inner loop of train_epoch\<close>

text \<open>
  C4.  For a mini-batch of time length \<open>T\<close> with \<open>0 < T - init_len\<close>, a positive update
  interval, and \<^verbatim>\<open>args.up_fr\<close> equal to the \<^verbatim>\<open>up_fr\<close> argument (as in the script's only
  call), the inner loop returns after exactly \<open>n = \<lceil>(T - init_len) / up_fr\<rceil>\<close>
  iterations: it makes \<open>n\<close> optimiser steps, and the network is called on the slices
  \<^verbatim>\<open>[init_len + j * up_fr : init_len + (j + 1) * up_fr]\<close> for \<open>j = 0, \<dots>, n - 1\<close>, in
  that order.  When \<open>T - init_len < up_fr\<close> there is exactly one iteration, on the
  shorter slice \<^verbatim>\<open>[init_len : T]\<close>.
\<close>

theorem tbptt_loop_iterations:
  fixes input_batch :: "'x tensor" and up_fr init_len :: int
  defines "n \<equiv> nat \<lceil>real_of_int (int (length input_batch) - init_len) / real_of_int up_fr\<rceil>"
  assumes pos: "0 < int (length input_batch) - init_len" and up: "0 < up_fr"
    and same: "args_up_fr = up_fr"
  shows "\<exists>batch_loss s' new.
     tbptt_loop C args_up_fr input_batch target_batch init_len up_fr k (s, tr)
       = Inr (batch_loss, Some (n - 1), (s', tr @ new)) \<and>
     0 < n \<and> optim_steps new = n \<and>
     nnet_inputs new = map (\<lambda>j. py_slice input_batch (init_len + int j * up_fr)
                                   (init_len + (int j + 1) * up_fr)) [0..<n] \<and>
     (int (length input_batch) - init_len < up_fr \<longrightarrow>
        n = 1 \<and> nnet_inputs new = [py_slice input_batch init_len (int (length input_batch))])"
proof -
  let ?m = "nat (py_ceil_div (int (length input_batch) - init_len) up_fr)"
  have up0: "up_fr \<noteq> 0" using up by simp
  have mn: "?m = n" using up0 by (simp add: n_def py_ceil_div_ceiling)
  have npos: "0 < n" using py_ceil_div_pos(1)[OF pos up] mn by linarith
  from tbptt_loop_eq[OF up0, of C args_up_fr input_batch target_batch init_len k s tr]
  obtain s' new where
    run: "tbptt_loop C args_up_fr input_batch target_batch init_len up_fr k (s, tr)
       = Inr (sum_list (loss_values C new), loop_var n k, (s', tr @ new))"
    and ni: "nnet_inputs new = map (\<lambda>j. py_slice input_batch (init_len + int j * args_up_fr)
                (init_len + int j * args_up_fr + up_fr)) [0..<n]"
    and os: "optim_steps new = n"
    unfolding mn by blast
  have lv: "loop_var n k = Some (n - 1)" using npos by (simp add: loop_var_def)
  have ni': "nnet_inputs new = map (\<lambda>j. py_slice input_batch (init_len + int j * up_fr)
                                   (init_len + (int j + 1) * up_fr)) [0..<n]"
    unfolding ni same by (simp add: algebra_simps)
  have short: "n = 1 \<and> nnet_inputs new = [py_slice input_batch init_len (int (length input_batch))]"
    if lt: "int (length input_batch) - init_len < up_fr"
  proof -
    have n1: "n = 1" using py_ceil_div_pos(2)[OF pos up lt] mn by simp
    have "int (length input_batch) \<le> init_len + up_fr" using lt by simp
    from py_slice_clamp_stop[OF this]
    have "py_slice input_batch init_len (init_len + up_fr)
            = py_slice input_batch init_len (int (length input_batch))" .
    with ni' n1 show ?thesis by simp
  qed
  show ?thesis
  proof (intro exI conjI impI)
    show "tbptt_loop C args_up_fr input_batch target_batch init_len up_fr k (s, tr)
       = Inr (sum_list (loss_values C new), Some (n - 1), (s', tr @ new))"
      using run lv by simp
    show "0 < n" by (rule npos)
    show "optim_steps new = n" by (rule os)
    show "nnet_inputs new = map (\<lambda>j. py_slice input_batch (init_len + int j * up_fr)
                                   (init_len + (int j + 1) * up_fr)) [0..<n]" by (rule ni')
    show "n = 1" if "int (length input_batch) - init_len < up_fr"
      using short[OF that] by simp
    show "nnet_inputs new = [py_slice input_batch init_len (int (length input_batch))]"
      if "int (length input_batch) - init_len < up_fr"
      using short[OF that] by simp
  qed
qed

theorem tbptt_loop_iterations_witness:
  "0 < int (length [[10], [11], [12], [13 :: int]]) - 2 \<and> (0 :: int) < 3 \<and>
   int (length [[10], [11], [12], [13 :: int]]) - 2 < 3 \<and>
   tbptt_loop echo 3 [[10], [11], [12], [13]] [[20], [21], [22], [23]] 2 3 None (0, [])
     = Inr (20, Some 0, 2,
        [Nnet [[12], [13]], Loss_fcn [[12], [13]] [[22], [23]], Backward, Optim_step,
         Detach_hidden, Zero_grad]) \<and>
   nnet_inputs [Nnet [[12], [13]], Loss_fcn [[12], [13]] [[22], [23 :: int]], Backward, Optim_step,
         Detach_hidden, Zero_grad]
     = [py_slice [[10], [11], [12], [13 :: int]] 2 (int (length [[10], [11], [12], [13 :: int]]))]"
proof -
  let ?ib = "[[10], [11], [12], [13 :: int]]"
  let ?tb = "[[20], [21], [22], [23 :: int]]"
  let ?tr = "[Nnet [[12], [13]], Loss_fcn [[12], [13]] [[22], [23 :: int]], Backward, Optim_step,
         Detach_hidden, Zero_grad]"
  have run: "tbptt_loop echo 3 ?ib ?tb 2 3 None (0, []) = Inr (20, Some 0, 2, ?tr)"
    by code_simp
  have h: "0 < int (length ?ib) - 2" "(0 :: int) < 3" "int (length ?ib) - 2 < 3" by simp_all
  from tbptt_loop_iterations [OF h(1) h(2) refl, of echo ?tb None 0 "[]"]
  obtain batch_loss s' new where
    r: "tbptt_loop echo 3 ?ib ?tb 2 3 None (0, [])
          = Inr (batch_loss, Some (nat \<lceil>real_of_int (int (length ?ib) - 2) / real_of_int 3\<rceil> - 1),
                 (s', [] @ new))"
    and sh: "int (length ?ib) - 2 < 3 \<longrightarrow>
               nat \<lceil>real_of_int (int (length ?ib) - 2) / real_of_int 3\<rceil> = 1 \<and>
               nnet_inputs new = [py_slice ?ib 2 (int (length ?ib))]"
    by blast
  from r run have "new = ?tr" by simp
  with sh h(3) have "nnet_inputs ?tr = [py_slice ?ib 2 (int (length ?ib))]" by blast
  with h run show ?thesis by blast
qed

text \<open>
  C8.  For any value of the global \<^verbatim>\<open>args.up_fr\<close>: the number of iterations comes from
  the \<^verbatim>\<open>up_fr\<close> argument, but step \<open>j\<close> starts at \<open>init_len + j * args.up_fr\<close>, where
  the network gets \<open>up_fr\<close> frames of input while the loss gets the target slice of
  \<open>args.up_fr\<close> frames; the batch loss is the sum of the losses so computed.  Where both
  slices of the first step lie inside the batch, the output and its target have the same
  number of frames exactly when the argument equals the global.
\<close>

theorem tbptt_loop_global_up_fr:
  fixes input_batch :: "'x tensor" and target_batch :: "'y tensor" and up_fr init_len :: int
  defines "n \<equiv> nat \<lceil>real_of_int (int (length input_batch) - init_len) / real_of_int up_fr\<rceil>"
  assumes pos: "0 < int (length input_batch) - init_len" and up: "0 < up_fr"
  shows "\<exists>batch_loss s' new.
     tbptt_loop C args_up_fr input_batch target_batch init_len up_fr k (s, tr)
       = Inr (batch_loss, Some (n - 1), (s', tr @ new)) \<and>
     nnet_inputs new = map (\<lambda>j. py_slice input_batch (init_len + int j * args_up_fr)
                                   (init_len + int j * args_up_fr + up_fr)) [0..<n] \<and>
     loss_targets new = map (\<lambda>j. py_slice target_batch (init_len + int j * args_up_fr)
                                   (init_len + int j * args_up_fr + args_up_fr)) [0..<n] \<and>
     batch_loss = sum_list (loss_values C new) \<and> length (loss_values C new) = n \<and>
     (0 \<le> init_len \<and> 0 < args_up_fr \<and> init_len + up_fr \<le> int (length input_batch) \<and>
      init_len + args_up_fr \<le> int (length target_batch) \<longrightarrow>
        (length (py_slice input_batch init_len (init_len + up_fr))
           = length (py_slice target_batch init_len (init_len + args_up_fr))
         \<longleftrightarrow> up_fr = args_up_fr))"
proof -
  let ?m = "nat (py_ceil_div (int (length input_batch) - init_len) up_fr)"
  have up0: "up_fr \<noteq> 0" using up by simp
  have mn: "?m = n" using up0 by (simp add: n_def py_ceil_div_ceiling)
  have npos: "0 < n" using py_ceil_div_pos(1)[OF pos up] mn by linarith
  from tbptt_loop_eq[OF up0, of C args_up_fr input_batch target_batch init_len k s tr]
  obtain s' new where
    run: "tbptt_loop C args_up_fr input_batch target_batch init_len up_fr k (s, tr)
       = Inr (sum_list (loss_values C new), loop_var n k, (s', tr @ new))"
    and ni: "nnet_inputs new = map (\<lambda>j. py_slice input_batch (init_len + int j * args_up_fr)
                (init_len + int j * args_up_fr + up_fr)) [0..<n]"
    and lt: "loss_targets new = map (\<lambda>j. py_slice target_batch (init_len + int j * args_up_fr)
                (init_len + int j * args_up_fr + args_up_fr)) [0..<n]"
    and ll: "length (loss_values C new) = n"
    unfolding mn by blast
  have lv: "loop_var n k = Some (n - 1)" using npos by (simp add: loop_var_def)
  have al: "length (py_slice input_batch init_len (init_len + up_fr))
           = length (py_slice target_batch init_len (init_len + args_up_fr))
         \<longleftrightarrow> up_fr = args_up_fr"
    if "0 \<le> init_len" "0 < args_up_fr" "init_len + up_fr \<le> int (length input_batch)"
      "init_len + args_up_fr \<le> int (length target_batch)"
  proof -
    have "length (py_slice input_batch init_len (init_len + up_fr)) = nat up_fr"
      using py_slice_length[of init_len "init_len + up_fr" input_batch] that up by simp
    moreover have "length (py_slice target_batch init_len (init_len + args_up_fr)) = nat args_up_fr"
      using py_slice_length[of init_len "init_len + args_up_fr" target_batch] that by simp
    ultimately show ?thesis using up that(2) by (simp add: eq_nat_nat_iff)
  qed
  show ?thesis
  proof (intro exI conjI impI)
    show "tbptt_loop C args_up_fr input_batch target_batch init_len up_fr k (s, tr)
       = Inr (sum_list (loss_values C new), Some (n - 1), (s', tr @ new))"
      using run lv by simp
    show "nnet_inputs new = map (\<lambda>j. py_slice input_batch (init_len + int j * args_up_fr)
                (init_len + int j * args_up_fr + up_fr)) [0..<n]" by (rule ni)
    show "loss_targets new = map (\<lambda>j. py_slice target_batch (init_len + int j * args_up_fr)
                (init_len + int j * args_up_fr + args_up_fr)) [0..<n]" by (rule lt)
    show "sum_list (loss_values C new) = sum_list (loss_values C new)" by (rule refl)
    show "length (loss_values C new) = n" by (rule ll)
    show "length (py_slice input_batch init_len (init_len + up_fr))
           = length (py_slice target_batch init_len (init_len + args_up_fr))
         \<longleftrightarrow> up_fr = args_up_fr"
      if "0 \<le> init_len \<and> 0 < args_up_fr \<and> init_len + up_fr \<le> int (length input_batch) \<and>
          init_len + args_up_fr \<le> int (length target_batch)"
      using al that by blast
  qed
qed

theorem tbptt_loop_global_up_fr_witness:
  "0 < int (length [[10], [11], [12], [13], [14], [15 :: int]]) - 1 \<and> (0 :: int) < 2 \<and>
   tbptt_loop echo 3 [[10], [11], [12], [13], [14], [15]] [[20], [21], [22], [23], [24], [25]]
       1 2 None (0, [])
     = Inr (40, Some 2, 4,
        [Nnet [[11], [12]], Loss_fcn [[11], [12]] [[21], [22], [23]], Backward, Optim_step,
         Detach_hidden, Zero_grad,
         Nnet [[14], [15]], Loss_fcn [[14], [15]] [[24], [25]], Backward, Optim_step,
         Detach_hidden, Zero_grad,
         Nnet [], Loss_fcn [] [], Backward, Optim_step, Detach_hidden, Zero_grad]) \<and>
   (0 :: int) \<le> 1 \<and> (0 :: int) < 3 \<and>
   1 + 2 \<le> int (length [[10], [11], [12], [13], [14], [15 :: int]]) \<and>
   1 + 3 \<le> int (length [[20], [21], [22], [23], [24], [25 :: int]]) \<and>
   length (py_slice [[10], [11], [12], [13], [14], [15 :: int]] 1 (1 + 2))
     \<noteq> length (py_slice [[20], [21], [22], [23], [24], [25 :: int]] 1 (1 + 3))"
proof -
  let ?ib = "[[10], [11], [12], [13], [14], [15 :: int]]"
  let ?tb = "[[20], [21], [22], [23], [24], [25 :: int]]"
  have run: "tbptt_loop echo 3 ?ib ?tb 1 2 None (0, [])
     = Inr (40, Some 2, 4,
        [Nnet [[11], [12]], Loss_fcn [[11], [12]] [[21], [22], [23]], Backward, Optim_step,
         Detach_hidden, Zero_grad,
         Nnet [[14], [15]], Loss_fcn [[14], [15]] [[24], [25]], Backward, Optim_step,
         Detach_hidden, Zero_grad,
         Nnet [], Loss_fcn [] [], Backward, Optim_step, Detach_hidden, Zero_grad])"
    by code_simp
  have h: "0 < int (length ?ib) - 1" "(0 :: int) < 2" by simp_all
  have g: "(0 :: int) \<le> 1 \<and> (0 :: int) < 3 \<and> 1 + 2 \<le> int (length ?ib) \<and>
           1 + 3 \<le> int (length ?tb)" by simp
  from tbptt_loop_global_up_fr [OF h, of echo 3 ?tb None 0 "[]"] g
  have "length (py_slice ?ib 1 (1 + 2)) = length (py_slice ?tb 1 (1 + 3)) \<longleftrightarrow> (2 :: int) = 3"
    by blast
  then have "length (py_slice ?ib 1 (1 + 2)) \<noteq> length (py_slice ?tb 1 (1 + 3))" by simp
  with h g run show ?thesis by blast
qed

section \<open>Mini-batches and the epoch loop\<close>

lemma index_select_Inr: "in_range t idx \<Longrightarrow> index_select t idx = Inr (gather t idx)"
  by (simp add: index_select_def in_range_def)

lemma index_select_Inl: "\<not> in_range t idx \<Longrightarrow> index_select t idx = Inl IndexError"
  by (simp add: index_select_def in_range_def)

lemma length_gather: "length (gather t idx) = length t"
  by (simp add: gather_def)

text \<open>One mini-batch, written out.\<close>

lemma train_batch_eq:
  fixes input_data :: "'x tensor" and target_data :: "'y tensor"
    and init_len up_fr bs :: int and shuffle :: "nat list" and batch_i :: nat
  defines "n \<equiv> nat (py_ceil_div (int (length input_data) - init_len) up_fr)"
  defines "idx \<equiv> batch_indices shuffle bs batch_i"
  assumes ri: "in_range input_data idx" and rt: "in_range target_data idx" and up: "up_fr \<noteq> 0"
  shows "\<exists>s' new.
     train_batch C aup shuffle input_data target_data bs init_len up_fr batch_i (el, k, (s, tr))
       = (case loop_var n k of
            None \<Rightarrow> Inl UnboundLocalError
          | Some kv \<Rightarrow> Inr (el + sum_list (loss_values C new) / real (kv + 1), Some kv,
                            (s', tr @ new @ [Reset_hidden]))) \<and>
     nnet_inputs new = batch_calls input_data idx init_len aup up_fr n \<and>
     length (loss_values C new) = n \<and> resets new = 0"
proof -
  let ?ib = "gather input_data idx" and ?tb = "gather target_data idx"
  let ?x0 = "py_slice ?ib 0 init_len"
  let ?s1 = "zero_grad C (snd (forward C s ?x0))"
  let ?tr1 = "tr @ [Nnet ?x0, Zero_grad]"
  have nib: "nat (py_ceil_div (int (length ?ib) - init_len) up_fr) = n"
    by (simp add: n_def length_gather)
  from tbptt_loop_eq[OF up, of C aup ?ib ?tb init_len k ?s1 ?tr1]
  obtain s2 new2 where
    run: "tbptt_loop C aup ?ib ?tb init_len up_fr k (?s1, ?tr1)
       = Inr (sum_list (loss_values C new2), loop_var n k, (s2, ?tr1 @ new2))"
    and ni: "nnet_inputs new2 = map (\<lambda>j. py_slice ?ib (init_len + int j * aup)
                (init_len + int j * aup + up_fr)) [0..<n]"
    and ll: "length (loss_values C new2) = n" and rs: "resets new2 = 0"
    unfolding nib by blast
  let ?new = "[Nnet ?x0, Zero_grad] @ new2"
  have w1: "call_zero_grad C (snd (call_nnet C ?x0 (s, tr))) = (?s1, ?tr1)"
    by (simp add: call_zero_grad_def call_nnet_def)
  have "train_batch C aup shuffle input_data target_data bs init_len up_fr batch_i (el, k, (s, tr))
       = (case loop_var n k of
            None \<Rightarrow> Inl UnboundLocalError
          | Some kv \<Rightarrow> Inr (el + sum_list (loss_values C ?new) / real (kv + 1), Some kv,
                            (reset_hidden C s2, tr @ ?new @ [Reset_hidden])))"
    unfolding train_batch_def Let_def idx_def[symmetric]
    by (simp add: index_select_Inr[OF ri] index_select_Inr[OF rt] bind_err_def w1 run
        call_reset_hidden_def trace_simps split: option.splits)
  moreover have "nnet_inputs ?new = batch_calls input_data idx init_len aup up_fr n"
    by (simp add: trace_simps ni batch_calls_def)
  moreover have "length (loss_values C ?new) = n" "resets ?new = 0"
    by (simp_all add: trace_simps ll rs)
  ultimately show ?thesis by blast
qed

lemma train_batch_Inr_pre:
  assumes "train_batch C aup shuffle input_data target_data bs init_len up_fr batch_i st = Inr r"
  shows "in_range input_data (batch_indices shuffle bs batch_i) \<and>
         in_range target_data (batch_indices shuffle bs batch_i) \<and>
         up_fr \<noteq> 0"
proof -
  let ?idx = "batch_indices shuffle bs batch_i"
  have a: "in_range input_data ?idx"
  proof (rule ccontr)
    assume "\<not> in_range input_data ?idx"
    from index_select_Inl[OF this] assms show False
      by (simp add: train_batch_def Let_def bind_err_def)
  qed
  have b: "in_range target_data ?idx"
  proof (rule ccontr)
    assume "\<not> in_range target_data ?idx"
    from index_select_Inl[OF this] index_select_Inr[OF a] assms show False
      by (simp add: train_batch_def Let_def bind_err_def)
  qed
  have c: "up_fr \<noteq> 0"
  proof
    assume "up_fr = 0"
    with index_select_Inr[OF a] index_select_Inr[OF b] assms show False
      by (simp add: train_batch_def Let_def bind_err_def tbptt_loop_def)
  qed
  from a b c show ?thesis by blast
qed


lemma for_range_prefix:
  assumes "for_range m f a = Inr r" and "j \<le> m"
  shows "\<exists>r'. for_range j f a = Inr r'"
  using assms
proof (induction m arbitrary: r)
  case 0
  then show ?case by simp
next
  case (Suc m)
  show ?case
  proof (cases "j = Suc m")
    case True
    with Suc.prems(1) show ?thesis by blast
  next
    case False
    with Suc.prems(2) have jm: "j \<le> m" by simp
    from Suc.prems(1) obtain r1 where "for_range m f a = Inr r1"
      by (auto simp: bind_err_def split: sum.splits)
    from Suc.IH[OF this jm] show ?thesis .
  qed
qed

lemma for_range_step_ok:
  assumes "for_range m f a = Inr r" and "i < m"
  shows "\<exists>a' r'. f i a' = Inr r'"
proof -
  from for_range_prefix[OF assms(1), of "Suc i"] assms(2)
  obtain r' where "for_range (Suc i) f a = Inr r'" by auto
  then show ?thesis by (auto simp: bind_err_def split: sum.splits)
qed

lemma for_range_first_ok:
  assumes "for_range m f a = Inr r" and "0 < m"
  shows "\<exists>r'. f 0 a = Inr r'"
proof -
  from for_range_prefix[OF assms(1), of "Suc 0"] assms(2)
  obtain r' where "for_range (Suc 0) f a = Inr r'" by auto
  then show ?thesis by (simp add: bind_err_def)
qed

lemma resets_concat:
  assumes "\<forall>seg \<in> set segs. resets seg = 0"
  shows "resets (concat (map (\<lambda>seg. seg @ [Reset_hidden]) segs)) = length segs"
  using assms by (induction segs) (simp_all add: trace_simps)

lemma nnet_inputs_concat:
  "nnet_inputs (concat (map (\<lambda>seg. seg @ [Reset_hidden]) segs)) = concat (map nnet_inputs segs)"
  by (induction segs) (simp_all add: trace_simps)

lemma epoch_run:
  fixes input_data :: "'x tensor" and target_data :: "'y tensor"
    and init_len up_fr bs :: int and shuffle :: "nat list"
  defines "n \<equiv> nat (py_ceil_div (int (length input_data) - init_len) up_fr)"
  assumes up: "up_fr \<noteq> 0" and npos: "0 < n"
    and rng: "\<forall>i<m. in_range input_data (batch_indices shuffle bs i) \<and>
                    in_range target_data (batch_indices shuffle bs i)"
  shows "\<exists>s' segs.
     for_range m (train_batch C aup shuffle input_data target_data bs init_len up_fr) (0, None, (s, tr))
       = Inr (sum_list (map (\<lambda>seg. sum_list (loss_values C seg) / real n) segs),
              (if m = 0 then None else Some (n - 1)),
              (s', tr @ concat (map (\<lambda>seg. seg @ [Reset_hidden]) segs))) \<and>
     length segs = m \<and>
     map nnet_inputs segs
       = map (\<lambda>i. batch_calls input_data (batch_indices shuffle bs i) init_len aup up_fr n) [0..<m] \<and>
     (\<forall>seg \<in> set segs. length (loss_values C seg) = n \<and> resets seg = 0)"
  using rng
proof (induction m)
  case 0
  show ?case by simp
next
  case (Suc m)
  from Suc.prems have "\<forall>i<m. in_range input_data (batch_indices shuffle bs i) \<and>
                    in_range target_data (batch_indices shuffle bs i)" by simp
  from Suc.IH[OF this] obtain s1 segs where
    run: "for_range m (train_batch C aup shuffle input_data target_data bs init_len up_fr) (0, None, (s, tr))
       = Inr (sum_list (map (\<lambda>seg. sum_list (loss_values C seg) / real n) segs),
              (if m = 0 then None else Some (n - 1)),
              (s1, tr @ concat (map (\<lambda>seg. seg @ [Reset_hidden]) segs)))"
    and len: "length segs = m"
    and ni: "map nnet_inputs segs
       = map (\<lambda>i. batch_calls input_data (batch_indices shuffle bs i) init_len aup up_fr n) [0..<m]"
    and each: "\<forall>seg \<in> set segs. length (loss_values C seg) = n \<and> resets seg = 0"
    by blast
  let ?el = "sum_list (map (\<lambda>seg. sum_list (loss_values C seg) / real n) segs)"
  let ?k = "if m = 0 then None else Some (n - 1)"
  let ?tr1 = "tr @ concat (map (\<lambda>seg. seg @ [Reset_hidden]) segs)"
  have ri: "in_range input_data (batch_indices shuffle bs m)"
    and rt: "in_range target_data (batch_indices shuffle bs m)"
    using Suc.prems by simp_all
  have lv: "loop_var n ?k = Some (n - 1)" using npos by (simp add: loop_var_def)
  have n1: "n - 1 + 1 = n" using npos by simp
  have "\<exists>s' new.
     train_batch C aup shuffle input_data target_data bs init_len up_fr m (?el, ?k, (s1, ?tr1))
       = (case loop_var n ?k of
            None \<Rightarrow> Inl UnboundLocalError
          | Some kv \<Rightarrow> Inr (?el + sum_list (loss_values C new) / real (kv + 1), Some kv,
                            (s', ?tr1 @ new @ [Reset_hidden]))) \<and>
     nnet_inputs new = batch_calls input_data (batch_indices shuffle bs m) init_len aup up_fr n \<and>
     length (loss_values C new) = n \<and> resets new = 0"
    by (rule train_batch_eq[OF ri rt up, where C = C and aup = aup and init_len = init_len
          and el = ?el and k = ?k and s = s1 and tr = ?tr1, folded n_def])
  then obtain s2 new where
    b: "train_batch C aup shuffle input_data target_data bs init_len up_fr m (?el, ?k, (s1, ?tr1))
       = Inr (?el + sum_list (loss_values C new) / real n, Some (n - 1),
              (s2, ?tr1 @ new @ [Reset_hidden]))"
    and bn: "nnet_inputs new = batch_calls input_data (batch_indices shuffle bs m) init_len aup up_fr n"
    and bl: "length (loss_values C new) = n" and br: "resets new = 0"
    unfolding lv option.case n1 by blast
  let ?segs = "segs @ [new]"
  show ?case
  proof (intro exI conjI)
    show "for_range (Suc m) (train_batch C aup shuffle input_data target_data bs init_len up_fr)
            (0, None, (s, tr))
       = Inr (sum_list (map (\<lambda>seg. sum_list (loss_values C seg) / real n) ?segs),
              (if Suc m = 0 then None else Some (n - 1)),
              (s2, tr @ concat (map (\<lambda>seg. seg @ [Reset_hidden]) ?segs)))"
      using b by (simp add: run bind_err_def)
    show "length ?segs = Suc m" using len by simp
    show "map nnet_inputs ?segs
       = map (\<lambda>i. batch_calls input_data (batch_indices shuffle bs i) init_len aup up_fr n) [0..<Suc m]"
      using ni bn by simp
    show "\<forall>seg \<in> set ?segs. length (loss_values C seg) = n \<and> resets seg = 0"
      using each bl br by simp
  qed
qed


lemma batch_indices_take_drop:
  assumes "0 < bs"
  shows "batch_indices xs bs i = take (nat bs) (drop (i * nat bs) xs)"
proof -
  let ?b = "nat bs" and ?L = "length xs"
  have a: "nat (int i * bs) = i * ?b" using assms by (simp add: nat_mult_distrib)
  have b: "nat ((int i + 1) * bs) = (i + 1) * ?b"
    using assms by (simp add: nat_mult_distrib nat_add_distrib)
  have lo: "slice_index (int i * bs) ?L = min (i * ?b) ?L"
  proof -
    have "\<not> int i * bs < 0" using assms by (simp add: mult_less_0_iff)
    then show ?thesis using a by (simp add: slice_index_def)
  qed
  have hi: "slice_index ((int i + 1) * bs) ?L = min ((i + 1) * ?b) ?L"
  proof -
    have "\<not> (int i + 1) * bs < 0" using assms by (simp add: mult_less_0_iff)
    then show ?thesis using b by (simp add: slice_index_def)
  qed
  show ?thesis
  proof (cases "?L \<le> i * ?b")
    case True
    then show ?thesis by (simp add: batch_indices_def py_slice_def Let_def lo hi)
  next
    case False
    have "min (?b + k) ?L - min k ?L = min ?b (?L - k)" if "\<not> ?L \<le> k" for k
      using that by (cases "?b + k \<le> ?L") (auto simp: min_def)
    from this[OF False] have "min ((i + 1) * ?b) ?L - min (i * ?b) ?L = min ?b (?L - i * ?b)"
      by (simp add: add.commute)
    then have "batch_indices xs bs i = take (min ?b (?L - i * ?b)) (drop (i * ?b) xs)"
      using False by (simp add: batch_indices_def py_slice_def Let_def lo hi min_def)
    also have "\<dots> = take ?b (drop (i * ?b) xs)" by (simp add: min_def)
    finally show ?thesis .
  qed
qed

lemma concat_take_drop:
  "concat (map (\<lambda>i. take b (drop (i * b) xs)) [0..<m]) = take (m * b) xs"
proof (induction m)
  case 0
  show ?case by simp
next
  case (Suc m)
  have "take (m * b) xs @ take b (drop (m * b) xs) = take (m * b + b) xs"
    by (simp add: take_add)
  with Suc show ?case by (simp add: add.commute)
qed

lemma py_ceil_div_nat:
  assumes "0 < b"
  shows "nat (py_ceil_div (int L) (int b)) = (if b dvd L then L div b else L div b + 1)"
proof -
  have b0: "int b \<noteq> 0" using assms by simp
  have dv: "int L mod int b = 0 \<longleftrightarrow> b dvd L"
    by (metis dvd_eq_mod_eq_0 int_dvd_int_iff)
  have "py_ceil_div (int L) (int b)
          = (if int L mod int b = 0 then int L div int b else int L div int b + 1)"
    unfolding py_ceil_div_def zdiv_zminus1_eq_if[OF b0] by simp
  also have "\<dots> = int (if b dvd L then L div b else L div b + 1)"
    using dv by (simp add: zdiv_int)
  finally show ?thesis by simp
qed

lemma ceil_batches:
  fixes b L :: nat
  assumes "0 < b" and "0 < L"
  defines "c \<equiv> nat (py_ceil_div (int L) (int b))"
  shows "0 < c" and "L \<le> c * b" and "(c - 1) * b < L"
    and "L - (c - 1) * b = (if b dvd L then b else L mod b)"
proof -
  have c: "c = (if b dvd L then L div b else L div b + 1)"
    unfolding c_def by (rule py_ceil_div_nat[OF assms(1)])
  have e: "L div b * b + L mod b = L" by simp
  have m: "L mod b < b" using assms(1) by simp
  have all: "0 < c \<and> L \<le> c * b \<and> (c - 1) * b < L \<and>
        L - (c - 1) * b = (if b dvd L then b else L mod b)"
  proof (cases "b dvd L")
    case True
    then have lb: "L div b * b = L" by simp
    have q: "0 < L div b" using lb assms(2) by (cases "L div b = 0") simp_all
    have "(L div b - 1) * b = L - b" using lb by (simp add: diff_mult_distrib)
    moreover have "b \<le> L" using True assms(2) by (simp add: dvd_imp_le)
    ultimately show "0 < c \<and> L \<le> c * b \<and> (c - 1) * b < L \<and>
        L - (c - 1) * b = (if b dvd L then b else L mod b)"
      using True c lb q assms by simp
  next
    case False
    then have r: "0 < L mod b" by (simp add: mod_greater_zero_iff_not_dvd)
    have "L div b * b < L" using e r by linarith
    moreover have "(L div b + 1) * b = L div b * b + b" by simp
    then have "L < (L div b + 1) * b" using e m by linarith
    moreover have "L - L div b * b = L mod b" using e by linarith
    ultimately show "0 < c \<and> L \<le> c * b \<and> (c - 1) * b < L \<and>
        L - (c - 1) * b = (if b dvd L then b else L mod b)"
      using False c by simp
  qed
  from all show "0 < c" "L \<le> c * b" "(c - 1) * b < L"
    "L - (c - 1) * b = (if b dvd L then b else L mod b)" by blast+
qed

lemma in_range_batch:
  assumes "in_range t shuffle"
  shows "in_range t (batch_indices shuffle bs i)"
proof -
  have "set (batch_indices shuffle bs i) \<subseteq> set shuffle"
    unfolding batch_indices_def py_slice_def Let_def
    by (meson set_take_subset set_drop_subset subset_trans)
  with assms show ?thesis by (auto simp: in_range_def)
qed


section \<open>The mini-batches of an epoch\<close>

text \<open>
  C2.  Let the permutation \<open>shuffle\<close> of the segment indices be non-empty and within
  the segment axis of the data, the batch size and the update interval positive, and the
  data longer than the priming length.  Then train_epoch returns without error, having
  processed exactly \<open>nb = \<lceil>segment_count / bs\<rceil>\<close> mini-batches (it resets the hidden
  state \<open>nb\<close> times, once after each).  Mini-batch \<open>i\<close> is made of the segments
  \<^verbatim>\<open>shuffle[i * bs:(i + 1) * bs]\<close>: the network is called on its priming slice and then
  on its inner-loop slices, batch after batch.  These index runs are consecutive: put one
  after the other they give \<open>shuffle\<close> back; all but the last have \<open>bs\<close> indices, and the
  last has \<open>segment_count mod bs\<close>, or \<open>bs\<close> if \<open>bs\<close> divides the segment count.
\<close>

theorem train_epoch_mini_batches:
  fixes input_data :: "'x tensor" and target_data :: "'y tensor"
    and init_len up_fr bs :: int and shuffle :: "nat list"
  defines "nb \<equiv> nat \<lceil>real (length shuffle) / real_of_int bs\<rceil>"
  defines "n \<equiv> nat \<lceil>real_of_int (int (length input_data) - init_len) / real_of_int up_fr\<rceil>"
  assumes bs: "0 < bs" and ne: "shuffle \<noteq> []" and up: "0 < up_fr"
    and il: "init_len < int (length input_data)"
    and ri: "in_range input_data shuffle" and rt: "in_range target_data shuffle"
  shows "\<exists>v s' new.
     train_epoch C aup shuffle input_data target_data bs init_len up_fr (s, tr)
       = Inr (v, (s', tr @ new)) \<and>
     resets new = nb \<and>
     nnet_inputs new
       = concat (map (\<lambda>i. batch_calls input_data (batch_indices shuffle bs i) init_len aup up_fr n)
                   [0..<nb]) \<and>
     concat (map (batch_indices shuffle bs) [0..<nb]) = shuffle \<and>
     (\<forall>i<nb - 1. length (batch_indices shuffle bs i) = nat bs) \<and>
     length (batch_indices shuffle bs (nb - 1))
       = (if nat bs dvd length shuffle then nat bs else length shuffle mod nat bs)"
proof -
  let ?L = "length shuffle" and ?b = "nat bs"
  let ?m = "nat (py_ceil_div (int ?L) bs)"
  let ?n = "nat (py_ceil_div (int (length input_data) - init_len) up_fr)"
  have bs0: "bs \<noteq> 0" and up0: "up_fr \<noteq> 0" using bs up by simp_all
  have ib: "int ?b = bs" using bs by simp
  have b0: "0 < ?b" using bs by simp
  have L0: "0 < ?L" using ne by simp
  have mnb: "?m = nb" using bs0 by (simp add: nb_def py_ceil_div_ceiling)
  have nn: "?n = n" using up0 by (simp add: n_def py_ceil_div_ceiling)
  have npos: "0 < ?n" using py_ceil_div_pos(1)[of "int (length input_data) - init_len" up_fr] il up
    by simp
  note cb = ceil_batches[OF b0 L0, unfolded ib mnb]
  have rng: "\<forall>i<nb. in_range input_data (batch_indices shuffle bs i) \<and>
                    in_range target_data (batch_indices shuffle bs i)"
    using in_range_batch[OF ri] in_range_batch[OF rt] by blast
  from epoch_run[OF up0 npos rng, of C aup s tr] obtain s' segs where
    run: "for_range nb (train_batch C aup shuffle input_data target_data bs init_len up_fr)
            (0, None, (s, tr))
       = Inr (sum_list (map (\<lambda>seg. sum_list (loss_values C seg) / real ?n) segs),
              (if nb = 0 then None else Some (?n - 1)),
              (s', tr @ concat (map (\<lambda>seg. seg @ [Reset_hidden]) segs)))"
    and len: "length segs = nb"
    and ni: "map nnet_inputs segs
       = map (\<lambda>i. batch_calls input_data (batch_indices shuffle bs i) init_len aup up_fr ?n) [0..<nb]"
    and each: "\<forall>seg \<in> set segs. length (loss_values C seg) = ?n \<and> resets seg = 0"
    by blast
  let ?new = "concat (map (\<lambda>seg. seg @ [Reset_hidden]) segs)"
  let ?v = "sum_list (map (\<lambda>seg. sum_list (loss_values C seg) / real ?n) segs) / real (nb - 1 + 1)"
  have lv: "loop_var nb None = Some (nb - 1)" using cb(1) by (simp add: loop_var_def)
  have td: "batch_indices shuffle bs i = take ?b (drop (i * ?b) shuffle)" for i
    by (rule batch_indices_take_drop[OF bs])
  have lb: "length (batch_indices shuffle bs i) = min ?b (?L - i * ?b)" for i
    by (simp add: td)
  show ?thesis
  proof (intro exI conjI)
    show "train_epoch C aup shuffle input_data target_data bs init_len up_fr (s, tr)
       = Inr (?v, (s', tr @ ?new))"
      using bs0 by (simp add: train_epoch_def Let_def mnb run bind_err_def lv)
    show "resets ?new = nb" using resets_concat each len by blast
    show "nnet_inputs ?new
       = concat (map (\<lambda>i. batch_calls input_data (batch_indices shuffle bs i) init_len aup up_fr n)
                   [0..<nb])"
      by (simp only: nnet_inputs_concat ni nn)
    show "concat (map (batch_indices shuffle bs) [0..<nb]) = shuffle"
    proof -
      have "batch_indices shuffle bs = (\<lambda>i. take ?b (drop (i * ?b) shuffle))"
        by (rule ext) (rule td)
      then have "concat (map (batch_indices shuffle bs) [0..<nb]) = take (nb * ?b) shuffle"
        by (simp only: concat_take_drop)
      then show ?thesis using cb(2) by simp
    qed
    show "\<forall>i<nb - 1. length (batch_indices shuffle bs i) = ?b"
    proof (intro allI impI)
      fix i assume "i < nb - 1"
      then have "i + 1 \<le> nb - 1" by simp
      then have "(i + 1) * ?b \<le> (nb - 1) * ?b" by (rule mult_le_mono1)
      with cb(3) have "(i + 1) * ?b < ?L" by linarith
      then have "?b \<le> ?L - i * ?b" by simp
      then show "length (batch_indices shuffle bs i) = ?b" by (simp add: lb)
    qed
    show "length (batch_indices shuffle bs (nb - 1))
       = (if ?b dvd ?L then ?b else ?L mod ?b)"
    proof -
      have "?L mod ?b < ?b" using b0 by simp
      then have "min ?b (if ?b dvd ?L then ?b else ?L mod ?b)
                   = (if ?b dvd ?L then ?b else ?L mod ?b)" by simp
      then show ?thesis by (simp only: lb cb(4))
    qed
  qed
qed

theorem train_epoch_mini_batches_witness:
  "(0 :: int) < 4 \<and> demo_shuffle \<noteq> [] \<and> (0 :: int) < 1 \<and> 1 < int (length demo_input) \<and>
   in_range demo_input demo_shuffle \<and> in_range demo_target demo_shuffle \<and>
   train_epoch echo 1 demo_shuffle demo_input demo_target 4 1 1 (0, [])
     = Inr (41 / 3, (0, demo_trace)) \<and>
   resets demo_trace = 3 \<and>
   map (batch_indices demo_shuffle 4) [0..<3] = [[3, 1, 4, 0], [5, 9, 2, 6], [8, 7]] \<and>
   concat (map (batch_indices demo_shuffle 4) [0..<3]) = demo_shuffle"
proof -
  have run: "train_epoch echo 1 demo_shuffle demo_input demo_target 4 1 1 (0, [])
     = Inr (41 / 3, (0, demo_trace))"
    by code_simp
  have h: "(0 :: int) < 4" "demo_shuffle \<noteq> []" "(0 :: int) < 1" "1 < int (length demo_input)"
    by (simp_all add: demo_shuffle_def demo_input_def)
  have ri: "in_range demo_input demo_shuffle" by code_simp
  have rt: "in_range demo_target demo_shuffle" by code_simp
  have nb: "nat \<lceil>real (length demo_shuffle) / real_of_int 4\<rceil> = 3"
    by (simp add: demo_shuffle_def)
  from train_epoch_mini_batches [OF h ri rt, of echo 1 0 "[]"] obtain v s' new where
    r: "train_epoch echo 1 demo_shuffle demo_input demo_target 4 1 1 (0, [])
          = Inr (v, (s', [] @ new))"
    and rs: "resets new = nat \<lceil>real (length demo_shuffle) / real_of_int 4\<rceil>"
    and cc: "concat (map (batch_indices demo_shuffle 4)
               [0..<nat \<lceil>real (length demo_shuffle) / real_of_int 4\<rceil>]) = demo_shuffle"
    by blast
  from r run have "new = demo_trace" by simp
  with rs nb have rs3: "resets demo_trace = 3" by simp
  from cc nb have cc3: "concat (map (batch_indices demo_shuffle 4) [0..<3]) = demo_shuffle"
    by simp
  have bi: "map (batch_indices demo_shuffle 4) [0..<3] = [[3, 1, 4, 0], [5, 9, 2, 6], [8, 7]]"
    by code_simp
  from h ri rt run rs3 bi cc3 show ?thesis by blast
qed

section \<open>The value train_epoch returns\<close>

text \<open>
  C3.  Whenever train_epoch returns a value \<open>v\<close>, the calls it made split into one
  block per mini-batch, each closed by the reset of the hidden state; there are
  \<open>\<lceil>segment_count / bs\<rceil>\<close> blocks, at least one, and every block holds the same
  positive number of inner-loop steps, each with one loss.  \<open>v\<close> is the sum over the
  blocks of the block's batch loss, divided by the number of blocks, where a batch loss is
  the sum of the scalar losses of the block divided by their number.
\<close>

theorem train_epoch_mean_of_batch_means:
  fixes input_data :: "'x tensor" and target_data :: "'y tensor"
    and init_len up_fr bs :: int and shuffle :: "nat list"
  assumes ret: "train_epoch C aup shuffle input_data target_data bs init_len up_fr (s, tr)
                  = Inr (v, w')"
  shows "\<exists>segs.
     length segs = nat \<lceil>real (length shuffle) / real_of_int bs\<rceil> \<and> segs \<noteq> [] \<and>
     snd w' = tr @ concat (map (\<lambda>seg. seg @ [Reset_hidden]) segs) \<and>
     (\<forall>seg \<in> set segs. resets seg = 0 \<and> loss_values C seg \<noteq> [] \<and>
        length (loss_values C seg)
          = nat \<lceil>real_of_int (int (length input_data) - init_len) / real_of_int up_fr\<rceil>) \<and>
     v = sum_list (map (\<lambda>seg. sum_list (loss_values C seg) / real (length (loss_values C seg))) segs)
           / real (length segs)"
proof -
  let ?m = "nat (py_ceil_div (int (length shuffle)) bs)"
  let ?n = "nat (py_ceil_div (int (length input_data) - init_len) up_fr)"
  let ?f = "train_batch C aup shuffle input_data target_data bs init_len up_fr"
  have bs0: "bs \<noteq> 0" using ret by (auto simp: train_epoch_def)
  from ret bs0 obtain st where
    loop: "for_range ?m ?f (0, None, (s, tr)) = Inr st"
    by (auto simp: train_epoch_def Let_def bind_err_def split: sum.splits)
  have mpos: "0 < ?m"
  proof (rule ccontr)
    assume "\<not> 0 < ?m"
    then have "?m = 0" by simp
    with ret bs0 show False
      by (simp add: train_epoch_def Let_def bind_err_def loop_var_def)
  qed
  have lv: "loop_var ?m None = Some (?m - 1)" using mpos by (simp add: loop_var_def)
  from ret bs0 have v: "v = fst st / real (?m - 1 + 1)" and w': "w' = snd (snd st)"
    by (simp_all add: train_epoch_def Let_def bind_err_def loop lv)
  from for_range_first_ok[OF loop mpos] obtain r0 where
    first: "?f 0 (0, None, (s, tr)) = Inr r0" by blast
  from train_batch_Inr_pre[OF first] have up0: "up_fr \<noteq> 0"
    and ri0: "in_range input_data (batch_indices shuffle bs 0)"
    and rt0: "in_range target_data (batch_indices shuffle bs 0)" by blast+
  have npos: "0 < ?n"
  proof (rule ccontr)
    assume "\<not> 0 < ?n"
    then have n0: "?n = 0" by simp
    from train_batch_eq[OF ri0 rt0 up0, where C = C and aup = aup and init_len = init_len
        and el = 0 and k = None and s = s and tr = tr] first
    show False unfolding n0 by (auto simp: loop_var_def)
  qed
  have rng: "\<forall>i<?m. in_range input_data (batch_indices shuffle bs i) \<and>
                    in_range target_data (batch_indices shuffle bs i)"
  proof (intro allI impI)
    fix i assume "i < ?m"
    from for_range_step_ok[OF loop this] obtain a' r' where "?f i a' = Inr r'" by blast
    from train_batch_Inr_pre[OF this]
    show "in_range input_data (batch_indices shuffle bs i) \<and>
          in_range target_data (batch_indices shuffle bs i)" by blast
  qed
  from epoch_run[OF up0 npos rng, of C aup s tr] obtain s' segs where
    run: "for_range ?m ?f (0, None, (s, tr))
       = Inr (sum_list (map (\<lambda>seg. sum_list (loss_values C seg) / real ?n) segs),
              (if ?m = 0 then None else Some (?n - 1)),
              (s', tr @ concat (map (\<lambda>seg. seg @ [Reset_hidden]) segs)))"
    and len: "length segs = ?m"
    and each: "\<forall>seg \<in> set segs. length (loss_values C seg) = ?n \<and> resets seg = 0"
    by blast
  from loop run have st: "st = (sum_list (map (\<lambda>seg. sum_list (loss_values C seg) / real ?n) segs),
              (if ?m = 0 then None else Some (?n - 1)),
              (s', tr @ concat (map (\<lambda>seg. seg @ [Reset_hidden]) segs)))"
    by simp
  have m1: "?m - 1 + 1 = ?m" using mpos by simp
  have mc: "?m = nat \<lceil>real (length shuffle) / real_of_int bs\<rceil>"
    using bs0 by (simp add: py_ceil_div_ceiling)
  have nc: "?n = nat \<lceil>real_of_int (int (length input_data) - init_len) / real_of_int up_fr\<rceil>"
    using up0 by (simp add: py_ceil_div_ceiling)
  have sm: "map (\<lambda>seg. sum_list (loss_values C seg) / real ?n) segs
          = map (\<lambda>seg. sum_list (loss_values C seg) / real (length (loss_values C seg))) segs"
    using each by (intro map_cong) simp_all
  show ?thesis
  proof (intro exI conjI)
    show "length segs = nat \<lceil>real (length shuffle) / real_of_int bs\<rceil>" using len mc by simp
    show "segs \<noteq> []" using len mpos by auto
    show "snd w' = tr @ concat (map (\<lambda>seg. seg @ [Reset_hidden]) segs)"
      by (simp add: w' st)
    show "\<forall>seg \<in> set segs. resets seg = 0 \<and> loss_values C seg \<noteq> [] \<and>
        length (loss_values C seg)
          = nat \<lceil>real_of_int (int (length input_data) - init_len) / real_of_int up_fr\<rceil>"
    proof
      fix seg assume "seg \<in> set segs"
      with each have l: "length (loss_values C seg) = ?n" and r: "resets seg = 0" by blast+
      from l npos have "loss_values C seg \<noteq> []" by auto
      with l r nc show "resets seg = 0 \<and> loss_values C seg \<noteq> [] \<and>
        length (loss_values C seg)
          = nat \<lceil>real_of_int (int (length input_data) - init_len) / real_of_int up_fr\<rceil>"
        by simp
    qed
    show "v = sum_list (map (\<lambda>seg. sum_list (loss_values C seg)
                / real (length (loss_values C seg))) segs) / real (length segs)"
      by (simp only: v st fst_conv m1 len sm)
  qed
qed

theorem train_epoch_mean_of_batch_means_witness:
  "train_epoch echo 1 demo_shuffle demo_input demo_target 4 1 1 (0, [])
     = Inr (41 / 3, (0, demo_trace)) \<and>
   (\<exists>segs. length segs = 3 \<and>
      demo_trace = concat (map (\<lambda>seg. seg @ [Reset_hidden]) segs) \<and>
      (\<forall>seg \<in> set segs. resets seg = 0 \<and> length (loss_values echo seg) = 2) \<and>
      (41 / 3 :: real)
        = sum_list (map (\<lambda>seg. sum_list (loss_values echo seg)
                               / real (length (loss_values echo seg))) segs) / 3) \<and>
   (41 / 3 :: real) = ((8 + 6) / 2 + (22 + 18) / 2 + (15 + 13) / 2) / 3"
proof -
  have run: "train_epoch echo 1 demo_shuffle demo_input demo_target 4 1 1 (0, [])
     = Inr (41 / 3, (0, demo_trace))"
    by code_simp
  have nb: "nat \<lceil>real (length demo_shuffle) / real_of_int 4\<rceil> = 3"
    by (simp add: demo_shuffle_def)
  have n: "nat \<lceil>real_of_int (int (length demo_input) - 1) / real_of_int 1\<rceil> = 2"
    by (simp add: demo_input_def)
  from train_epoch_mean_of_batch_means [OF run] obtain segs where
    a: "length segs = nat \<lceil>real (length demo_shuffle) / real_of_int 4\<rceil>"
    and b: "snd (0 :: nat, demo_trace) = [] @ concat (map (\<lambda>seg. seg @ [Reset_hidden]) segs)"
    and c: "\<forall>seg \<in> set segs. resets seg = 0 \<and> loss_values echo seg \<noteq> [] \<and>
        length (loss_values echo seg)
          = nat \<lceil>real_of_int (int (length demo_input) - 1) / real_of_int 1\<rceil>"
    and d: "(41 / 3 :: real)
        = sum_list (map (\<lambda>seg. sum_list (loss_values echo seg)
                               / real (length (loss_values echo seg))) segs) / real (length segs)"
    by blast
  have a3: "length segs = 3" using a nb by simp
  have "length segs = 3 \<and>
      demo_trace = concat (map (\<lambda>seg. seg @ [Reset_hidden]) segs) \<and>
      (\<forall>seg \<in> set segs. resets seg = 0 \<and> length (loss_values echo seg) = 2) \<and>
      (41 / 3 :: real)
        = sum_list (map (\<lambda>seg. sum_list (loss_values echo seg)
                               / real (length (loss_values echo seg))) segs) / 3"
    using a3 b c d n by simp
  then have ex: "\<exists>segs. length segs = 3 \<and>
      demo_trace = concat (map (\<lambda>seg. seg @ [Reset_hidden]) segs) \<and>
      (\<forall>seg \<in> set segs. resets seg = 0 \<and> length (loss_values echo seg) = 2) \<and>
      (41 / 3 :: real)
        = sum_list (map (\<lambda>seg. sum_list (loss_values echo seg)
                               / real (length (loss_values echo seg))) segs) / 3"
    by (rule exI)
  have ar: "(41 / 3 :: real) = ((8 + 6) / 2 + (22 + 18) / 2 + (15 + 13) / 2) / 3" by simp
  from run ex ar show ?thesis by blast
qed

section \<open>Validation and the best checkpoint\<close>

lemma best_is_min_fresh: "best_is_min fresh_info"
  by (simp add: best_is_min_def fresh_info_def)

lemma below_iff_all:
  assumes "best_is_min i"
  shows "below x (best_val_loss i) \<longleftrightarrow> (\<forall>l \<in> set (validation_losses i). x < l)"
proof (cases "best_val_loss i")
  case Infinity
  with assms show ?thesis by (simp add: best_is_min_def)
next
  case (Finite b)
  with assms have b: "b \<in> set (validation_losses i)" "\<forall>l \<in> set (validation_losses i). b \<le> l"
    by (simp_all add: best_is_min_def)
  have "x < b \<longleftrightarrow> (\<forall>l \<in> set (validation_losses i). x < l)"
  proof
    assume "x < b"
    with b(2) show "\<forall>l \<in> set (validation_losses i). x < l" by force
  next
    assume "\<forall>l \<in> set (validation_losses i). x < l"
    with b(1) show "x < b" by blast
  qed
  with Finite show ?thesis by simp
qed

lemma record_validation_written:
  assumes "below val_loss (best_val_loss (info st))"
  shows "record_validation epoch vout val_loss st =
     st\<lparr>info := (info st)\<lparr>validation_losses := validation_losses (info st) @ [val_loss],
                          current_epoch := epoch, best_val_loss := Finite val_loss\<rparr>,
        model_best := Some (fst (world st)),
        outputs := outputs st @
          [Add_scalar ''Loss/val'' val_loss epoch, Write_text ''bestvloss.txt'' val_loss,
           Save_model ''model_best''
             ((info st)\<lparr>validation_losses := validation_losses (info st) @ [val_loss],
                        current_epoch := epoch, best_val_loss := Finite val_loss\<rparr>),
           Write_wav ''best_val_out.wav'' vout]\<rparr>"
  using assms by (simp add: record_validation_def Let_def emit_def)

lemma record_validation_not_written:
  assumes "\<not> below val_loss (best_val_loss (info st))"
  shows "record_validation epoch vout val_loss st =
     st\<lparr>info := (info st)\<lparr>validation_losses := validation_losses (info st) @ [val_loss],
                          current_epoch := epoch\<rparr>,
        outputs := outputs st @ [Add_scalar ''Loss/val'' val_loss epoch]\<rparr>"
  using assms by (simp add: record_validation_def Let_def emit_def)

lemma record_validation_inv:
  assumes "best_is_min (info st)"
  shows "best_is_min (info (record_validation epoch vout val_loss st))"
proof (cases "below val_loss (best_val_loss (info st))")
  case True
  from below_iff_all[OF assms, of val_loss] True
  have "\<forall>l \<in> set (validation_losses (info st)). val_loss < l" by simp
  then have "\<forall>l \<in> set (validation_losses (info st) @ [val_loss]). val_loss \<le> l" by force
  then show ?thesis
    by (simp add: record_validation_written[OF True] best_is_min_def)
next
  case False
  then obtain b where b: "best_val_loss (info st) = Finite b" and le: "b \<le> val_loss"
    by (cases "best_val_loss (info st)") auto
  with assms have "b \<in> set (validation_losses (info st))"
    "\<forall>l \<in> set (validation_losses (info st)). b \<le> l" by (simp_all add: best_is_min_def)
  with b le show ?thesis
    by (simp add: record_validation_not_written[OF False] best_is_min_def)
qed

lemma latest_saves_simps:
  "latest_saves [] = []"
  "latest_saves (a @ b) = latest_saves a @ latest_saves b"
  "latest_saves (Add_scalar name v ep # os) = latest_saves os"
  "latest_saves (Write_text name v # os) = latest_saves os"
  "latest_saves (Write_wav name t # os) = latest_saves os"
  "latest_saves (Save_model ''model'' i # os) = i # latest_saves os"
  "latest_saves (Save_model ''model_best'' i # os) = latest_saves os"
  by (simp_all add: latest_saves_def)

lemma trained_epochs_simps:
  "trained_epochs [] = []"
  "trained_epochs (a @ b) = trained_epochs a @ trained_epochs b"
  "trained_epochs (Add_scalar ''Loss/train'' v ep # os) = ep # trained_epochs os"
  "trained_epochs (Add_scalar ''Loss/val'' v ep # os) = trained_epochs os"
  "trained_epochs (Write_text name v # os) = trained_epochs os"
  "trained_epochs (Write_wav name t # os) = trained_epochs os"
  "trained_epochs (Save_model name i # os) = trained_epochs os"
  by (simp_all add: trained_epochs_def)

lemma record_validation_props:
  "\<exists>new. outputs (record_validation epoch vout val_loss st) = outputs st @ new \<and>
         latest_saves new = [] \<and> trained_epochs new = []"
  by (cases "below val_loss (best_val_loss (info st))")
     (simp_all add: record_validation_written record_validation_not_written
        latest_saves_simps trained_epochs_simps)

lemma record_validation_ticks:
  "ticks (record_validation epoch vout val_loss st) = ticks st"
  by (cases "below val_loss (best_val_loss (info st))")
     (simp_all add: record_validation_written record_validation_not_written)

lemma best_is_min_cong:
  "best_val_loss i = best_val_loss j \<Longrightarrow> validation_losses i = validation_losses j \<Longrightarrow>
   best_is_min i = best_is_min j"
  by (simp add: best_is_min_def split: loss_bound.splits)

lemma validate_props:
  assumes "validate A D C clock fresh epoch st = Inr st'"
  shows "\<exists>new. outputs st' = outputs st @ new \<and> latest_saves new = [] \<and> trained_epochs new = []"
    and "ticks st' = ticks st + 2"
    and "best_is_min (info st) \<Longrightarrow> best_is_min (info st')"
proof -
  let ?st1 = "st\<lparr>ticks := Suc (ticks st)\<rparr>"
  from assms obtain r where
    r: "only_proc C fresh (cfg_val_chunk A) (val_input D) (val_target D) (cfg_val_chunk A)
          (world ?st1) = Inr r"
    by (auto simp: validate_def now_def Let_def bind_err_def split: sum.splits)
  let ?st2 = "?st1\<lparr>world := snd r, val_output := Some (fst (fst r))\<rparr>"
  let ?st3 = "record_validation epoch (fst (fst r)) (snd (fst r)) ?st2"
  from assms r have st': "st' = (?st3\<lparr>ticks := Suc (ticks ?st3)\<rparr>)
      \<lparr>info := (info ?st3)\<lparr>val_epoch_av :=
          (if val_epoch_av (info ?st3) \<noteq> 0
           then (val_epoch_av (info ?st3) + clock (ticks ?st3) - clock (ticks st)) / 2
           else clock (ticks ?st3) - clock (ticks st))\<rparr>\<rparr>"
    by (simp add: validate_def now_def Let_def bind_err_def)
  from record_validation_props[of epoch "fst (fst r)" "snd (fst r)" ?st2]
  show "\<exists>new. outputs st' = outputs st @ new \<and> latest_saves new = [] \<and> trained_epochs new = []"
    by (simp add: st')
  show "ticks st' = ticks st + 2"
    by (simp add: st' record_validation_ticks)
  show "best_is_min (info st')" if "best_is_min (info st)"
  proof -
    from that have "best_is_min (info ?st2)" by simp
    from record_validation_inv[OF this, of epoch "fst (fst r)" "snd (fst r)"]
    have "best_is_min (info ?st3)" .
    moreover have "best_is_min (info st') = best_is_min (info ?st3)"
      by (rule best_is_min_cong) (simp_all add: st')
    ultimately show ?thesis by simp
  qed
qed


lemma epoch_body_props:
  assumes "epoch_body A D C clock fresh perms start_time init_time epoch st = Inr st'"
  shows "\<exists>new k. outputs st' = outputs st @ new \<and> latest_saves new = [info st'] \<and>
           trained_epochs new = [epoch] \<and> current_epoch (info st') = epoch \<and>
           total_time (info st') = (init_time + clock k - start_time) / 3600 \<and>
           ticks st \<le> k \<and> k < ticks st'"
    and "best_is_min (info st) \<Longrightarrow> best_is_min (info st')"
proof -
  let ?st1 = "snd (now clock st)"
  let ?te = "train_epoch C (cfg_up_fr A) (perms epoch) (train_input D) (train_target D)
          (cfg_batch_size A) (cfg_init_len A) (cfg_up_fr A) (world ?st1)"
  from assms obtain r where r: "?te = Inr r"
    by (cases ?te) (simp_all add: epoch_body_def Let_def split_def bind_err_def)
  let ?i1 = "(info ?st1)\<lparr>training_losses := training_losses (info ?st1) @ [fst r]\<rparr>"
  let ?st2 = "emit [Add_scalar ''Loss/train'' (last (training_losses ?i1)) epoch]
                (?st1\<lparr>world := snd r, info := ?i1\<rparr>)"
  let ?st3 = "snd (now clock ?st2)"
  let ?st4 = "?st3\<lparr>info := (info ?st3)\<lparr>train_epoch_av :=
                 (if train_epoch_av (info ?st2) \<noteq> 0
                  then (train_epoch_av (info ?st2) + fst (now clock ?st2) - fst (now clock st)) / 2
                  else fst (now clock ?st2) - fst (now clock st))\<rparr>\<rparr>"
  let ?v = "if cfg_validation_f A = 0 then Inl ZeroDivisionError
            else if epoch mod cfg_validation_f A = 0
              then validate A D C clock fresh epoch ?st4 else Inr ?st4"
  let ?i6 = "\<lambda>st5. (info (snd (now clock st5)))\<lparr>current_epoch := epoch,
                total_time := (init_time + fst (now clock st5) - start_time) / 3600\<rparr>"
  let ?fin = "\<lambda>st5. emit [Save_model ''model'' (?i6 st5)] ((snd (now clock st5))\<lparr>info := ?i6 st5\<rparr>)"
  have eq: "epoch_body A D C clock fresh perms start_time init_time epoch st
              = bind_err ?v (\<lambda>st5. Inr (?fin st5))"
    by (simp add: epoch_body_def Let_def split_def r bind_err_def)
  from assms obtain st5 where v: "?v = Inr st5" and st': "st' = ?fin st5"
    unfolding eq by (cases ?v) (simp_all add: bind_err_def)
  have o4: "outputs ?st4 = outputs st @ [Add_scalar ''Loss/train'' (fst r) epoch]"
    and t4: "ticks ?st4 = Suc (Suc (ticks st))"
    and b4: "best_val_loss (info ?st4) = best_val_loss (info st)"
      "validation_losses (info ?st4) = validation_losses (info st)"
    by (simp_all add: now_def emit_def)
  have mid: "(\<exists>new. outputs st5 = outputs ?st4 @ new \<and> latest_saves new = [] \<and>
                trained_epochs new = []) \<and> ticks ?st4 \<le> ticks st5 \<and>
             (best_is_min (info ?st4) \<longrightarrow> best_is_min (info st5))"
  proof (cases "epoch mod cfg_validation_f A = 0")
    case True
    with v have "validate A D C clock fresh epoch ?st4 = Inr st5"
      by (simp split: if_splits)
    from validate_props[OF this] show ?thesis by simp
  next
    case False
    with v have "st5 = ?st4" by (simp split: if_splits)
    then show ?thesis by (simp add: latest_saves_simps trained_epochs_simps)
  qed
  then obtain new where new: "outputs st5 = outputs ?st4 @ new" "latest_saves new = []"
    "trained_epochs new = []" and tk: "ticks ?st4 \<le> ticks st5" by blast
  have o': "outputs st' = outputs st5 @ [Save_model ''model'' (info st')]"
    and i': "current_epoch (info st') = epoch"
      "total_time (info st') = (init_time + clock (ticks st5) - start_time) / 3600"
    and t': "ticks st' = Suc (ticks st5)"
    and b': "best_val_loss (info st') = best_val_loss (info st5)"
      "validation_losses (info st') = validation_losses (info st5)"
    by (simp_all add: st' now_def emit_def)
  show "\<exists>new k. outputs st' = outputs st @ new \<and> latest_saves new = [info st'] \<and>
           trained_epochs new = [epoch] \<and> current_epoch (info st') = epoch \<and>
           total_time (info st') = (init_time + clock k - start_time) / 3600 \<and>
           ticks st \<le> k \<and> k < ticks st'"
  proof (intro exI conjI)
    show "outputs st' = outputs st @ ([Add_scalar ''Loss/train'' (fst r) epoch] @ new @
            [Save_model ''model'' (info st')])"
      using new(1) o' o4 by simp
    show "latest_saves ([Add_scalar ''Loss/train'' (fst r) epoch] @ new @
            [Save_model ''model'' (info st')]) = [info st']"
      using new(2) by (simp add: latest_saves_simps)
    show "trained_epochs ([Add_scalar ''Loss/train'' (fst r) epoch] @ new @
            [Save_model ''model'' (info st')]) = [epoch]"
      using new(3) by (simp add: trained_epochs_simps)
    show "current_epoch (info st') = epoch" by (rule i'(1))
    show "total_time (info st') = (init_time + clock (ticks st5) - start_time) / 3600"
      by (rule i'(2))
    show "ticks st \<le> ticks st5" using tk t4 by simp
    show "ticks st5 < ticks st'" using t' by simp
  qed
  show "best_is_min (info st')" if "best_is_min (info st)"
  proof -
    have "best_is_min (info ?st4) = best_is_min (info st)"
      by (rule best_is_min_cong) (rule b4)+
    with that mid have "best_is_min (info st5)" by blast
    moreover have "best_is_min (info st') = best_is_min (info st5)"
      by (rule best_is_min_cong) (rule b')+
    ultimately show ?thesis by simp
  qed
qed

lemma for_each_epochs:
  assumes "for_each xs (epoch_body A D C clock fresh perms start_time init_time) st = Inr st'"
  shows "\<exists>new. outputs st' = outputs st @ new \<and>
           map current_epoch (latest_saves new) = xs \<and> trained_epochs new = xs \<and>
           (\<forall>i \<in> set (latest_saves new).
              \<exists>k\<ge>ticks st. total_time i = (init_time + clock k - start_time) / 3600) \<and>
           ticks st \<le> ticks st' \<and> (best_is_min (info st) \<longrightarrow> best_is_min (info st'))"
  using assms
proof (induction xs arbitrary: st)
  case Nil
  then show ?case by (simp add: latest_saves_simps trained_epochs_simps)
next
  case (Cons x xs)
  from Cons.prems obtain st1 where
    a: "epoch_body A D C clock fresh perms start_time init_time x st = Inr st1"
    and b: "for_each xs (epoch_body A D C clock fresh perms start_time init_time) st1 = Inr st'"
    by (auto simp: bind_err_def split: sum.splits)
  from epoch_body_props(1)[OF a] obtain new1 k where
    n1: "outputs st1 = outputs st @ new1" "latest_saves new1 = [info st1]"
      "trained_epochs new1 = [x]" "current_epoch (info st1) = x"
      "total_time (info st1) = (init_time + clock k - start_time) / 3600"
      "ticks st \<le> k" "k < ticks st1" by blast
  from Cons.IH[OF b] obtain new2 where
    n2: "outputs st' = outputs st1 @ new2" "map current_epoch (latest_saves new2) = xs"
      "trained_epochs new2 = xs"
      "\<forall>i \<in> set (latest_saves new2).
              \<exists>k\<ge>ticks st1. total_time i = (init_time + clock k - start_time) / 3600"
      "ticks st1 \<le> ticks st'" "best_is_min (info st1) \<longrightarrow> best_is_min (info st')" by blast
  show ?case
  proof (intro exI conjI)
    show "outputs st' = outputs st @ (new1 @ new2)" using n1(1) n2(1) by simp
    show "map current_epoch (latest_saves (new1 @ new2)) = x # xs"
      using n1(2,4) n2(2) by (simp add: latest_saves_simps)
    show "trained_epochs (new1 @ new2) = x # xs"
      using n1(3) n2(3) by (simp add: trained_epochs_simps)
    show "\<forall>i \<in> set (latest_saves (new1 @ new2)).
              \<exists>k\<ge>ticks st. total_time i = (init_time + clock k - start_time) / 3600"
    proof
      fix i assume "i \<in> set (latest_saves (new1 @ new2))"
      then consider "i = info st1" | "i \<in> set (latest_saves new2)"
        using n1(2) by (auto simp: latest_saves_simps)
      then show "\<exists>k\<ge>ticks st. total_time i = (init_time + clock k - start_time) / 3600"
      proof cases
        case 1
        with n1(5,6) show ?thesis by blast
      next
        case 2
        with n2(4) obtain k' where "ticks st1 \<le> k'"
          "total_time i = (init_time + clock k' - start_time) / 3600" by blast
        moreover have "ticks st \<le> k'" using n1(6,7) calculation(1) by linarith
        ultimately show ?thesis by blast
      qed
    qed
    show "ticks st \<le> ticks st'" using n1(6,7) n2(5) by linarith
    show "best_is_min (info st) \<longrightarrow> best_is_min (info st')"
      using epoch_body_props(2)[OF a] n2(6) by blast
  qed
qed

lemma train_loop_best_is_min:
  assumes "train_loop A D C clock fresh perms start_time st = Inr st'"
    and "best_is_min (info st)"
  shows "best_is_min (info st')"
proof -
  let ?st1 = "st\<lparr>ticks := Suc (ticks st)\<rparr>"
  let ?init = "clock (ticks st) - start_time + total_time (info st) * 3600"
  from assms(1) have loop: "for_each [current_epoch (info st) + 1 .. cfg_epochs A]
      (epoch_body A D C clock fresh perms start_time ?init) ?st1 = Inr st'"
    by (simp add: train_loop_def now_def Let_def)
  from for_each_epochs[OF loop] assms(2) show ?thesis by auto
qed

text \<open>
  C5.  At a validation event, let the best validation loss stored be the least of the
  validation losses recorded so far (\<open>+\<infinity>\<close> if there is none); this holds for a fresh
  network and every validation event and every epoch keeps it.  Then the new validation
  loss is strictly below every loss recorded before exactly when it is strictly below
  the stored best loss.  In that case the event writes, after the validation scalar, the
  text file of the best loss, the model \<^verbatim>\<open>model_best\<close> and the audio file of the
  validation output, and the stored best loss becomes the new loss; otherwise it writes
  the validation scalar only, and the stored best loss and the stored best model stay as
  they were.
\<close>

theorem record_validation_best:
  fixes st :: "('s, 'x, 'y) main_state"
  assumes inv: "best_is_min (info st)"
  shows "((\<forall>l \<in> set (validation_losses (info st)). val_loss < l)
            \<longleftrightarrow> below val_loss (best_val_loss (info st))) \<and>
         ((\<forall>l \<in> set (validation_losses (info st)). val_loss < l) \<longrightarrow>
            outputs (record_validation epoch vout val_loss st)
              = outputs st @
                [Add_scalar ''Loss/val'' val_loss epoch, Write_text ''bestvloss.txt'' val_loss,
                 Save_model ''model_best'' (info (record_validation epoch vout val_loss st)),
                 Write_wav ''best_val_out.wav'' vout] \<and>
            model_best (record_validation epoch vout val_loss st) = Some (fst (world st)) \<and>
            best_val_loss (info (record_validation epoch vout val_loss st)) = Finite val_loss) \<and>
         (\<not> (\<forall>l \<in> set (validation_losses (info st)). val_loss < l) \<longrightarrow>
            outputs (record_validation epoch vout val_loss st)
              = outputs st @ [Add_scalar ''Loss/val'' val_loss epoch] \<and>
            model_best (record_validation epoch vout val_loss st) = model_best st \<and>
            best_val_loss (info (record_validation epoch vout val_loss st))
              = best_val_loss (info st)) \<and>
         validation_losses (info (record_validation epoch vout val_loss st))
           = validation_losses (info st) @ [val_loss] \<and>
         best_is_min (info (record_validation epoch vout val_loss st))"
proof -
  note iff = below_iff_all[OF inv, of val_loss]
  show ?thesis
  proof (cases "below val_loss (best_val_loss (info st))")
    case True
    with iff record_validation_inv[OF inv, of epoch vout val_loss] show ?thesis
      by (simp add: record_validation_written[OF True])
  next
    case False
    with iff record_validation_inv[OF inv, of epoch vout val_loss] show ?thesis
      by (simp add: record_validation_not_written[OF False])
  qed
qed


theorem record_validation_best_witness:
  "best_is_min (info demo_validated) \<and>
   validation_losses (info demo_validated) = [5, 3] \<and>
   outputs (record_validation 4 [[1]] 2 demo_validated)
     = [Add_scalar ''Loss/val'' 2 4, Write_text ''bestvloss.txt'' 2,
        Save_model ''model_best'' (info (record_validation 4 [[1]] 2 demo_validated)),
        Write_wav ''best_val_out.wav'' [[1]]] \<and>
   best_val_loss (info (record_validation 4 [[1]] 2 demo_validated)) = Finite 2 \<and>
   outputs (record_validation 4 [[1]] 4 demo_validated) = [Add_scalar ''Loss/val'' 4 4] \<and>
   best_val_loss (info (record_validation 4 [[1]] 4 demo_validated)) = Finite 3"
proof -
  have inv: "best_is_min (info demo_validated)"
    by (simp add: best_is_min_def demo_validated_def demo_state_def fresh_info_def)
  have l2: "\<forall>l \<in> set (validation_losses (info demo_validated)). (2 :: real) < l"
    by (simp add: demo_validated_def demo_state_def fresh_info_def)
  have l4: "\<not> (\<forall>l \<in> set (validation_losses (info demo_validated)). (4 :: real) < l)"
    by (simp add: demo_validated_def demo_state_def fresh_info_def)
  have o: "outputs demo_validated = []" "best_val_loss (info demo_validated) = Finite 3"
    by (simp_all add: demo_validated_def demo_state_def fresh_info_def)
  from record_validation_best [OF inv, of 2 4 "[[1]]"] l2 o
  have a: "outputs (record_validation 4 [[1]] 2 demo_validated)
     = [Add_scalar ''Loss/val'' 2 4, Write_text ''bestvloss.txt'' 2,
        Save_model ''model_best'' (info (record_validation 4 [[1]] 2 demo_validated)),
        Write_wav ''best_val_out.wav'' [[1]]]"
    "best_val_loss (info (record_validation 4 [[1]] 2 demo_validated)) = Finite 2"
    by simp_all
  from record_validation_best [OF inv, of 4 4 "[[1]]"] l4 o
  have b: "outputs (record_validation 4 [[1]] 4 demo_validated) = [Add_scalar ''Loss/val'' 4 4]"
    "best_val_loss (info (record_validation 4 [[1]] 4 demo_validated)) = Finite 3"
    by simp_all
  have v: "validation_losses (info demo_validated) = [5, 3]"
    by (simp add: demo_validated_def demo_state_def fresh_info_def)
  from inv v a b show ?thesis by blast
qed

section \<open>A run of the main program\<close>

lemma echo_train_epoch:
  "train_epoch echo 1 [0] [[1], [2]] [[1], [4]] 1 1 1 (0, tr)
     = Inr (2, (0, tr @ [Nnet [[1]], Zero_grad, Nnet [[2]], Loss_fcn [[2]] [[4]],
                         Backward, Optim_step, Detach_hidden, Zero_grad, Reset_hidden]))"
  by (simp add: train_epoch_def train_batch_def tbptt_loop_def tbptt_step_def py_ceil_div_def
      loop_var_def bind_err_def Let_def batch_indices_def py_slice_def slice_index_def
      index_select_def gather_def call_nnet_def call_zero_grad_def call_loss_fcn_def
      call_backward_def call_optim_step_def call_detach_hidden_def call_reset_hidden_def
      echo_def abs_diff_def)

lemma echo_only_proc:
  "only_proc echo (\<lambda>i. [0]) 2 [[a], [b]] [[c], [d]] 2 (s, tr)
     = Inr (([[a], [b]], real_of_int (\<bar>a - c\<bar> + \<bar>b - d\<bar>)),
            (0, tr @ [Nnet [[a], [b]], Detach_hidden, Reset_hidden,
                      Loss_fcn [[a], [b]] [[c], [d]]]))"
  by (simp add: only_proc_def proc_chunk_def empty_like_def py_trunc_div_def
      loop_var_def bind_err_def Let_def py_slice_def slice_index_def set_slice_def
      call_nnet_def call_loss_fcn_def call_detach_hidden_def call_reset_hidden_def
      echo_def abs_diff_def)

lemma demo_loop:
  "train_loop demo_config demo_dataset echo real (\<lambda>i. [0]) (\<lambda>e. [0]) 0 demo_state = Inr demo_end"
  by (simp add: train_loop_def epoch_body_def validate_def record_validation_def now_def emit_def
      Let_def bind_err_def echo_train_epoch echo_only_proc demo_config_def demo_dataset_def
      demo_state_def fresh_info_def demo_end_def)

section \<open>Resuming from a checkpoint\<close>

text \<open>
  C6.  Let the network loaded at startup carry epoch number \<open>E\<close> and a cumulative time,
  let the clock not run backwards, and let the training loop return.  Then the epochs it
  trained are \<open>E + 1, \<dots>, args.epochs\<close> in this order, after each of them the model is
  saved with that epoch number, and the cumulative time saved with it is at least the
  cumulative time of the loaded checkpoint.
\<close>

theorem train_loop_resume:
  fixes st :: "('s, 'x, 'y) main_state"
  assumes run: "train_loop A D C clock fresh perms start_time st = Inr st'"
    and mono: "\<forall>i j. i \<le> j \<longrightarrow> clock i \<le> clock j"
    and start: "start_time \<le> clock (ticks st)"
  shows "\<exists>new. outputs st' = outputs st @ new \<and>
           trained_epochs new = [current_epoch (info st) + 1 .. cfg_epochs A] \<and>
           map current_epoch (latest_saves new) = [current_epoch (info st) + 1 .. cfg_epochs A] \<and>
           (\<forall>i \<in> set (latest_saves new). total_time (info st) \<le> total_time i)"
proof -
  let ?st1 = "st\<lparr>ticks := Suc (ticks st)\<rparr>"
  let ?init = "clock (ticks st) - start_time + total_time (info st) * 3600"
  from run have loop: "for_each [current_epoch (info st) + 1 .. cfg_epochs A]
      (epoch_body A D C clock fresh perms start_time ?init) ?st1 = Inr st'"
    by (simp add: train_loop_def now_def Let_def)
  from for_each_epochs[OF loop] obtain new where
    n: "outputs st' = outputs ?st1 @ new"
      "map current_epoch (latest_saves new) = [current_epoch (info st) + 1 .. cfg_epochs A]"
      "trained_epochs new = [current_epoch (info st) + 1 .. cfg_epochs A]"
      "\<forall>i \<in> set (latest_saves new).
          \<exists>k\<ge>ticks ?st1. total_time i = (?init + clock k - start_time) / 3600"
    by blast
  have tt: "total_time (info st) \<le> total_time i" if "i \<in> set (latest_saves new)" for i
  proof -
    from n(4) that obtain k where k: "ticks ?st1 \<le> k"
      and t: "total_time i = (?init + clock k - start_time) / 3600" by blast
    have "ticks st \<le> k" using k by simp
    with mono have "clock (ticks st) \<le> clock k" by blast
    with start have "0 \<le> (clock (ticks st) - start_time) + (clock k - start_time)" by linarith
    then have "total_time (info st) * 3600 \<le> ?init + clock k - start_time" by linarith
    then show ?thesis unfolding t by simp
  qed
  show ?thesis
  proof (intro exI conjI)
    show "outputs st' = outputs st @ new" using n(1) by simp
    show "trained_epochs new = [current_epoch (info st) + 1 .. cfg_epochs A]" by (rule n(3))
    show "map current_epoch (latest_saves new) = [current_epoch (info st) + 1 .. cfg_epochs A]"
      by (rule n(2))
    show "\<forall>i \<in> set (latest_saves new). total_time (info st) \<le> total_time i"
      using tt by blast
  qed
qed

theorem train_loop_resume_witness:
  "train_loop demo_config demo_dataset echo real (\<lambda>i. [0]) (\<lambda>e. [0]) 0 demo_state = Inr demo_end \<and>
   0 \<le> real (ticks demo_state) \<and>
   current_epoch (info demo_state) = 1 \<and> total_time (info demo_state) = 2 \<and>
   cfg_epochs demo_config = 3 \<and>
   trained_epochs (outputs demo_end) = [2, 3] \<and>
   map current_epoch (latest_saves (outputs demo_end)) = [2, 3] \<and>
   list_all (\<lambda>i. 2 \<le> total_time i) (latest_saves (outputs demo_end))"
proof -
  have run: "train_loop demo_config demo_dataset echo real (\<lambda>i. [0]) (\<lambda>e. [0]) 0 demo_state
               = Inr demo_end"
    by (rule demo_loop)
  have mono: "\<forall>i j. i \<le> j \<longrightarrow> real i \<le> real j" by simp
  have start: "0 \<le> real (ticks demo_state)" by simp
  have e: "current_epoch (info demo_state) = 1" "total_time (info demo_state) = 2"
    "cfg_epochs demo_config = 3" "outputs demo_state = []"
    by (simp_all add: demo_state_def fresh_info_def demo_config_def)
  have r: "[(1 :: int) + 1 .. 3] = [2, 3]" by (simp add: upto_rec_numeral)
  from train_loop_resume [OF run mono start] obtain new where
    n: "outputs demo_end = outputs demo_state @ new"
      "trained_epochs new = [current_epoch (info demo_state) + 1 .. cfg_epochs demo_config]"
      "map current_epoch (latest_saves new)
         = [current_epoch (info demo_state) + 1 .. cfg_epochs demo_config]"
      "\<forall>i \<in> set (latest_saves new). total_time (info demo_state) \<le> total_time i"
    by blast
  from n(1) e(4) have new: "new = outputs demo_end" by simp
  from n(2,3,4) have "trained_epochs (outputs demo_end) = [2, 3]"
    "map current_epoch (latest_saves (outputs demo_end)) = [2, 3]"
    "\<forall>i \<in> set (latest_saves (outputs demo_end)). 2 \<le> total_time i"
    unfolding new e r by simp_all
  with run start e show ?thesis by (simp add: list_all_iff)
qed

section \<open>The audio file of the final test\<close>

text \<open>
  C7.  The run above, continued through the final test: the validation at epoch 2 left
  \<open>[[1], [2]]\<close> in \<^verbatim>\<open>val_output\<close>, and the final network turns the test input into
  \<open>[[5], [6]]\<close>.  The file \<^verbatim>\<open>test_out_final.wav\<close> is written from the validation output
  \<open>[[1], [2]]\<close>, not from the test output just computed; \<^verbatim>\<open>test_out_bestv.wav\<close> is
  written from the test output of the best model.
\<close>

theorem final_test_writes_validation_output:
  "map_sum id (\<lambda>st. wav_files (outputs st))
     (main demo_config demo_dataset echo real (\<lambda>i. [0]) (\<lambda>e. [0]) 0 0 demo_state)
     = Inr [(''best_val_out.wav'', [[1], [2]]), (''test_out_final.wav'', [[1], [2]]),
            (''test_out_bestv.wav'', [[5], [6]])] \<and>
   map_sum id fst (only_proc echo (\<lambda>i. [0]) 2 [[5], [6]] [[5], [8]] 2 (world demo_end))
     = Inr ([[5], [6]], 2)"
proof -
  have run: "train_loop demo_config demo_dataset echo real (\<lambda>i. [0]) (\<lambda>e. [0]) 0 demo_state
               = Inr demo_end"
    by (rule demo_loop)
  have w: "world demo_end = (fst (world demo_end), snd (world demo_end))" by simp
  have t: "map_sum id fst (only_proc echo (\<lambda>i. [0]) 2 [[5], [6]] [[5], [8]] 2 (world demo_end))
     = Inr ([[5], [6]], 2)"
    by (subst w) (simp only: echo_only_proc, simp)
  have m: "main demo_config demo_dataset echo real (\<lambda>i. [0]) (\<lambda>e. [0]) 0 0 demo_state
             = final_test demo_config demo_dataset echo (\<lambda>i. [0]) 0 demo_end"
    by (simp add: main_def run bind_err_def)
  have "map_sum id (\<lambda>st. wav_files (outputs st))
          (final_test demo_config demo_dataset echo (\<lambda>i. [0]) 0 demo_end)
     = Inr [(''best_val_out.wav'', [[1], [2]]), (''test_out_final.wav'', [[1], [2]]),
            (''test_out_bestv.wav'', [[5], [6]])]"
    by (simp add: bind_err_def final_test_def Let_def emit_def echo_only_proc
        demo_end_def demo_config_def demo_dataset_def wav_files_def)
  with t m show ?thesis by simp
qed

section \<open>only_proc: where the remainder is written\<close>

lemma proc_remainder_mismatch:
  assumes lp: "length_preserving C" and c: "0 < chunk" and vc: "0 \<le> vc" and ne: "vc \<noteq> chunk"
    and q: "0 < q" and r: "int q * chunk + 3 \<le> int (length out)"
    and li: "length input_data = length out"
  shows "proc_remainder C vc input_data chunk (q - 1) (out, w) = Inl RuntimeError"
proof -
  let ?L = "length out"
  have q1: "int (q - Suc 0) + 1 = int q" using q by simp
  define x where "x = py_slice input_data (int q * chunk) (- 1)"
  define y where "y = fst (forward C (fst w) x)"
  have qc: "0 \<le> int q * chunk" using c by simp
  have lx: "length x = ?L - 1 - nat (int q * chunk)"
    using r qc li by (simp add: x_def py_slice_def slice_index_def Let_def)
  have ly: "length y = ?L - 1 - nat (int q * chunk)"
    using lp lx by (simp add: y_def length_preserving_def)
  have ly2: "2 \<le> length y" using ly r qc by linarith
  have qv: "0 \<le> int q * vc" using vc by simp
  have neq: "int q * vc \<noteq> int q * chunk" using ne q by simp
  have lo: "slice_index (int q * vc) ?L = min (nat (int q * vc)) ?L"
    using qv by (simp add: slice_index_def)
  have hi: "slice_index (- 1) ?L = ?L - 1"
    using r qc by (simp add: slice_index_def)
  have nn: "nat (int q * vc) \<noteq> nat (int q * chunk)"
    using neq qv qc by (simp add: eq_nat_nat_iff)
  have m: "length y \<noteq> (?L - 1) - min (nat (int q * vc)) ?L"
    using ly ly2 nn by (simp add: min_def) linarith
  have "set_slice out (int q * vc) (- 1) y = Inl RuntimeError"
    using m ly2 by (simp add: set_slice_def Let_def lo hi)
  then show ?thesis
    by (simp add: proc_remainder_def q1 Let_def call_nnet_def bind_err_def x_def y_def)
qed

lemma remainder_offsets:
  assumes "0 < chunk" and "0 \<le> vc" and "0 < q" and "int q * chunk < int L"
  shows "slice_index (int q * vc) L = slice_index (int q * chunk) L \<longleftrightarrow> vc = chunk"
proof -
  have a: "0 \<le> int q * vc" "0 \<le> int q * chunk" using assms by simp_all
  have b: "nat (int q * chunk) < L" using a assms(4) by linarith
  have "nat (int q * vc) = nat (int q * chunk) \<longleftrightarrow> int q * vc = int q * chunk"
    using a by (simp add: eq_nat_nat_iff)
  then have "min (nat (int q * vc)) L = nat (int q * chunk) \<longleftrightarrow> int q * vc = int q * chunk"
    using b by (simp add: min_def) linarith
  moreover have "int q * vc = int q * chunk \<longleftrightarrow> vc = chunk" using assms(3) by simp
  ultimately show ?thesis
    using a assms(4) by (simp add: slice_index_def)
qed

lemma div_facts:
  fixes chunk :: int and L :: nat
  assumes "0 < chunk" and "\<not> chunk dvd int L" and "chunk < int L"
  shows "0 < L div nat chunk" and "int (L div nat chunk) * chunk < int L"
    and "int (L div nat chunk) * chunk + int (L mod nat chunk) = int L"
proof -
  have c: "0 < nat chunk" "nat chunk \<le> L" using assms by linarith+
  then show "0 < L div nat chunk" by (simp add: div_greater_zero_iff)
  have nd: "\<not> nat chunk dvd L"
    using assms(1,2) by (metis int_dvd_int_iff int_nat_eq less_le)
  then have "0 < L mod nat chunk" by (simp add: mod_greater_zero_iff_not_dvd)
  moreover have e: "L div nat chunk * nat chunk + L mod nat chunk = L" by simp
  ultimately have "L div nat chunk * nat chunk < L" by linarith
  then have "int (L div nat chunk * nat chunk) < int L" by linarith
  moreover have ic: "int (nat chunk) = chunk" using assms(1) by simp
  ultimately show "int (L div nat chunk) * chunk < int L" by (simp add: ic)
  have "int L = int (L div nat chunk * nat chunk + L mod nat chunk)" by simp
  also have "\<dots> = int (L div nat chunk) * int (nat chunk) + int (L mod nat chunk)"
    by (simp only: of_nat_add of_nat_mult)
  finally show "int (L div nat chunk) * chunk + int (L mod nat chunk) = int L"
    by (simp only: ic)
qed

text \<open>
  C9.  Let the time length of the data not be a multiple of the chunk argument, with at
  least one full chunk, and let \<open>q\<close> be the number of full chunks (the value of
  \<^verbatim>\<open>l + 1\<close> after the loop).  Whenever only_proc returns, its output is the result of
  assigning the network's output on \<^verbatim>\<open>input_data[q * chunk:-1]\<close> to the slice
  \<^verbatim>\<open>output[q * args.val_chunk:-1]\<close>: the start offset uses the global validation chunk
  size and the end index is -1.  The output has the length of the target and its final
  frame is still the uninitialised one of \<^verbatim>\<open>empty_like\<close>: nothing wrote it.  The start of
  the written slice is the start of the slice that was read exactly when
  \<^verbatim>\<open>args.val_chunk\<close> equals the chunk argument; when they differ and the remainder has
  at least two frames to place, the assignment fails with a shape mismatch.
\<close>

theorem only_proc_remainder_placement:
  fixes target_data :: "'y tensor"
  assumes c: "0 < chunk" and nd: "\<not> chunk dvd int (length target_data)"
    and lt: "chunk < int (length target_data)" and vc: "0 \<le> vc"
  shows "(\<forall>out loss w'.
            only_proc C fresh vc input_data target_data chunk w = Inr ((out, loss), w') \<longrightarrow>
            (\<exists>out_q w_q.
               for_range (length target_data div nat chunk) (proc_chunk C input_data chunk)
                 (empty_like fresh target_data, w) = Inr (out_q, w_q) \<and>
               set_slice out_q (int (length target_data div nat chunk) * vc) (- 1)
                 (fst (call_nnet C
                    (py_slice input_data (int (length target_data div nat chunk) * chunk) (- 1)) w_q))
                 = Inr out) \<and>
            length out = length target_data \<and>
            out ! (length target_data - 1) = fresh (length target_data - 1))
       \<and> (slice_index (int (length target_data div nat chunk) * vc) (length target_data)
            = slice_index (int (length target_data div nat chunk) * chunk) (length target_data)
          \<longleftrightarrow> vc = chunk)
       \<and> (vc \<noteq> chunk \<and> 3 \<le> length target_data mod nat chunk \<and>
          length input_data = length target_data \<and> length_preserving C \<longrightarrow>
          only_proc C fresh vc input_data target_data chunk w = Inl RuntimeError)"
proof -
  let ?L = "length target_data"
  let ?q = "?L div nat chunk"
  let ?out0 = "empty_like fresh target_data"
  note df = div_facts[OF c nd lt]
  have q1: "int (?q - 1) + 1 = int ?q" using df(1) by simp
  have q1': "int (?q - Suc 0) + 1 = int ?q" using df(1) by simp
  have l0: "length ?out0 = ?L" by (simp add: empty_like_def)
  have Lpos: "0 < ?L" using c lt by linarith
  have last0: "?out0 ! (?L - 1) = fresh (?L - 1)"
    using Lpos by (simp add: empty_like_def)
  have kle: "int ?q * chunk \<le> int (?L - 1)" using df(2) by linarith
  have A: "\<exists>out_q w_q.
               for_range ?q (proc_chunk C input_data chunk) (?out0, w) = Inr (out_q, w_q) \<and>
               set_slice out_q (int ?q * vc) (- 1)
                 (fst (call_nnet C (py_slice input_data (int ?q * chunk) (- 1)) w_q)) = Inr out \<and>
            length out = ?L \<and> out ! (?L - 1) = fresh (?L - 1)"
    if ret: "only_proc C fresh vc input_data target_data chunk w = Inr ((out, loss), w')"
    for out loss w'
  proof -
    from ret obtain out_q w_q where
      a: "for_range ?q (proc_chunk C input_data chunk) (?out0, w) = Inr (out_q, w_q)"
      and b: "\<exists>w_r. proc_remainder C vc input_data chunk (?q - 1) (out_q, w_q) = Inr (out, w_r)"
      unfolding only_proc_unfold[OF c nd lt]
      by (auto simp: bind_err_def split: sum.splits)
    from b obtain w_r where
      b': "proc_remainder C vc input_data chunk (?q - 1) (out_q, w_q) = Inr (out, w_r)" by blast
    from for_range_proc_chunk_above[OF a c kle] Lpos l0
    have inv: "length out_q = ?L" "out_q ! (?L - 1) = fresh (?L - 1)"
      using last0 by simp_all
    from proc_remainder_last[OF b'] inv
    have fin: "length out = ?L" "out ! (?L - 1) = fresh (?L - 1)" by simp_all
    from b' have "set_slice out_q (int ?q * vc) (- 1)
        (fst (call_nnet C (py_slice input_data (int ?q * chunk) (- 1)) w_q)) = Inr out"
      by (auto simp: proc_remainder_def q1 q1' Let_def bind_err_def split: prod.splits sum.splits)
    with a fin show ?thesis by blast
  qed
  have B: "slice_index (int ?q * vc) ?L = slice_index (int ?q * chunk) ?L \<longleftrightarrow> vc = chunk"
    by (rule remainder_offsets[OF c vc df(1) df(2)])
  have D: "only_proc C fresh vc input_data target_data chunk w = Inl RuntimeError"
    if ne: "vc \<noteq> chunk" and r3: "3 \<le> ?L mod nat chunk"
      and li: "length input_data = ?L" and lp: "length_preserving C"
  proof -
    have qi: "int ?q * chunk \<le> int (length input_data)" using df(2) li by simp
    have qo: "int ?q * chunk \<le> int (length ?out0)" using df(2) l0 by simp
    from for_range_proc_chunk_ok[OF lp c qi qo, of w] obtain out_q w_q where
      a: "for_range ?q (proc_chunk C input_data chunk) (?out0, w) = Inr (out_q, w_q)"
      and lq: "length out_q = ?L" using l0 by auto
    have r: "int ?q * chunk + 3 \<le> int (length out_q)" using df(3) r3 lq by linarith
    have "proc_remainder C vc input_data chunk (?q - 1) (out_q, w_q) = Inl RuntimeError"
      by (rule proc_remainder_mismatch[OF lp c vc ne df(1) r]) (simp add: li lq)
    with a show ?thesis
      unfolding only_proc_unfold[OF c nd lt] by (simp add: bind_err_def)
  qed
  from A B D show ?thesis by blast
qed

theorem only_proc_remainder_placement_witness:
  "(0 :: int) < 3 \<and> \<not> (3 :: int) dvd int (length [[20], [21], [22], [23], [24], [25], [26], [27 :: int]]) \<and>
   (3 :: int) < int (length [[20], [21], [22], [23], [24], [25], [26], [27 :: int]]) \<and> (0 :: int) \<le> 3 \<and>
   only_proc echo (\<lambda>i. [- 1]) 3 [[10], [11], [12], [13], [14], [15], [16], [17]]
       [[20], [21], [22], [23], [24], [25], [26], [27]] 3 (0, [])
     = Inr (([[10], [11], [12], [13], [14], [15], [16], [- 1]], 98), 0,
        [Nnet [[10], [11], [12]], Detach_hidden, Nnet [[13], [14], [15]], Detach_hidden,
         Nnet [[16]], Reset_hidden,
         Loss_fcn [[10], [11], [12], [13], [14], [15], [16], [- 1]]
           [[20], [21], [22], [23], [24], [25], [26], [27]]]) \<and>
   [[10], [11], [12], [13], [14], [15], [16], [- 1 :: int]] ! 7 = [- 1] \<and>
   (2 :: int) \<noteq> 4 \<and> 3 \<le> length [[20], [21], [22], [23], [24], [25], [26 :: int]] mod nat 4 \<and>
   length_preserving echo \<and>
   only_proc echo (\<lambda>i. [- 1]) 2 [[10], [11], [12], [13], [14], [15], [16]]
       [[20], [21], [22], [23], [24], [25], [26]] 4 (0, []) = Inl RuntimeError"
proof -
  let ?T8 = "[[20], [21], [22], [23], [24], [25], [26], [27 :: int]]"
  let ?I8 = "[[10], [11], [12], [13], [14], [15], [16], [17 :: int]]"
  let ?T7 = "[[20], [21], [22], [23], [24], [25], [26 :: int]]"
  let ?I7 = "[[10], [11], [12], [13], [14], [15], [16 :: int]]"
  have run: "only_proc echo (\<lambda>i. [- 1]) 3 ?I8 ?T8 3 (0, [])
     = Inr (([[10], [11], [12], [13], [14], [15], [16], [- 1]], 98), 0,
        [Nnet [[10], [11], [12]], Detach_hidden, Nnet [[13], [14], [15]], Detach_hidden,
         Nnet [[16]], Reset_hidden,
         Loss_fcn [[10], [11], [12], [13], [14], [15], [16], [- 1]] ?T8])"
    by code_simp
  have h8: "(0 :: int) < 3" "\<not> (3 :: int) dvd int (length ?T8)" "(3 :: int) < int (length ?T8)"
    "(0 :: int) \<le> 3" by simp_all
  have h7: "(0 :: int) < 4" "\<not> (4 :: int) dvd int (length ?T7)" "(4 :: int) < int (length ?T7)"
    "(0 :: int) \<le> 2" by simp_all
  have lp: "length_preserving echo" by (simp add: length_preserving_def echo_def)
  have r3: "3 \<le> length ?T7 mod nat 4" by simp
  from only_proc_remainder_placement [OF h8, of echo "\<lambda>i. [- 1]" ?I8 "(0, [])"] run
  have last: "[[10], [11], [12], [13], [14], [15], [16], [- 1 :: int]] ! (length ?T8 - 1) = [- 1]"
    by blast
  from only_proc_remainder_placement [OF h7, of echo "\<lambda>i. [- 1]" ?I7 "(0, [])"] r3 lp
  have err: "only_proc echo (\<lambda>i. [- 1]) 2 ?I7 ?T7 4 (0, []) = Inl RuntimeError"
    by simp
  from last have last7: "[[10], [11], [12], [13], [14], [15], [16], [- 1 :: int]] ! 7 = [- 1]"
    by simp
  show ?thesis
    using h8 run last7 r3 lp err by simp
qed

section \<open>only_proc: the last sample of the remainder\<close>

text \<open>
  C1.  Eight frames in chunks of three (with \<^verbatim>\<open>args.val_chunk\<close> also three): the
  network is called on frames 0-2, 3-5 and then on frame 6 alone; the remainder has two
  frames, 6 and 7, but the slice \<^verbatim>\<open>[6:-1]\<close> leaves frame 7 out.  The returned output
  has eight frames, and the last one is the uninitialised frame, never written.
\<close>

theorem only_proc_drops_last_sample:
  "only_proc echo (\<lambda>i. [- 1]) 3 [[10], [11], [12], [13], [14], [15], [16], [17]]
       [[20], [21], [22], [23], [24], [25], [26], [27]] 3 (0, [])
     = Inr (([[10], [11], [12], [13], [14], [15], [16], [- 1]], 98), 0,
        [Nnet [[10], [11], [12]], Detach_hidden, Nnet [[13], [14], [15]], Detach_hidden,
         Nnet [[16]], Reset_hidden,
         Loss_fcn [[10], [11], [12], [13], [14], [15], [16], [- 1]]
           [[20], [21], [22], [23], [24], [25], [26], [27]]])"
  by code_simp

section \<open>only_proc on an input shorter than the chunk\<close>

text \<open>
  C10.  When the time length of the data is positive and strictly smaller than the chunk
  argument, the loop over full chunks runs zero times, the length is not a multiple of
  the chunk, and the remainder branch reads the loop variable \<^verbatim>\<open>l\<close> that was never
  bound: only_proc raises UnboundLocalError instead of returning a pair.
\<close>

theorem only_proc_short_input_unbound:
  assumes "0 < length target_data" and "int (length target_data) < chunk"
  shows "only_proc C fresh vc input_data target_data chunk w = Inl UnboundLocalError"
proof -
  have n0: "nat (py_trunc_div (int (length target_data)) chunk) = 0"
    using assms by (simp add: py_trunc_div_def)
  have nd: "\<not> chunk dvd int (length target_data)"
    using assms by (auto dest: zdvd_imp_le)
  from assms have c0: "chunk \<noteq> 0" by simp
  show ?thesis
    using n0 nd c0 by (simp add: only_proc_def empty_like_def Let_def loop_var_def bind_err_def)
qed

theorem only_proc_short_input_unbound_witness:
  "0 < length [[20], [21 :: int]] \<and> int (length [[20], [21 :: int]]) < 3 \<and>
   only_proc echo (\<lambda>i. [- 1]) 3 [[10], [11]] [[20], [21]] 3 (0, []) = Inl UnboundLocalError"
  using only_proc_short_input_unbound [of "[[20], [21 :: int]]" 3 echo "\<lambda>i. [- 1]" 3 "[[10], [11]]" "(0, [])"]
  by simp

end
